theory Spec2Isabelle
  imports Main "HOL-Library.Word"
begin

section \<open>Data model\<close>

text \<open>
  The bot keeps its durable state in two SQLite tables, \<^verbatim>\<open>users\<close> and
  \<^verbatim>\<open>broadcasts\<close>, and its rate-limit history in the process-wide
  \<^verbatim>\<open>FLOOD\<close> object. A table is a list of rows paired with their primary key;
  Python's \<^verbatim>\<open>int\<close> is \<^typ>\<open>int\<close>. A \<^typ>\<open>string\<close> stands for a Python
  \<^verbatim>\<open>str\<close> whose code points are below 256, one \<^typ>\<open>char\<close> per code point.
\<close>

text \<open>A row of \<^verbatim>\<open>users\<close>; the key \<^verbatim>\<open>user_id\<close> is the first component of the pair.
  \<^verbatim>\<open>is_banned\<close> is an INTEGER column (default 0), \<^verbatim>\<open>ban_reason\<close> is TEXT
  (default NULL).\<close>

record user_row =
  first_name :: string
  username :: string
  joined_at :: int
  last_seen :: int
  is_banned :: int
  ban_reason :: "string option"

type_synonym users_table = "(int \<times> user_row) list"

text \<open>A row of \<^verbatim>\<open>broadcasts\<close>; the key is the AUTOINCREMENT column \<^verbatim>\<open>id\<close>.\<close>

record broadcast_row =
  admin_id :: int
  message :: string
  created_at :: int
  sent_ok :: int
  sent_fail :: int

type_synonym broadcasts_table = "(int \<times> broadcast_row) list"

text \<open>The dataclass \<^verbatim>\<open>Flood\<close>: the dict \<^verbatim>\<open>bucket\<close> is a map from user id to
  the list of recorded timestamps.\<close>

record flood =
  window :: int
  limit :: int
  bucket :: "int \<rightharpoonup> int list"

text \<open>What the handlers read of a Telegram \<^verbatim>\<open>User\<close>, \<^verbatim>\<open>Message\<close> and
  \<^verbatim>\<open>Update\<close>. An identifier assigned by the transport has at most 52
  significant bits (Bot API) and is held as a 64-bit integer, read as a signed
  number by \<^const>\<open>sint\<close>; the ids typed into \<^verbatim>\<open>/ban\<close> and \<^verbatim>\<open>/unban\<close> are
  unbounded Python integers and reach \<^verbatim>\<open>DB\<close> as \<^typ>\<open>int\<close>. An update may come without a user
  and without a message: the update that \<^verbatim>\<open>cb\<close> builds for a callback query
  has a user and, when the query has no accessible message, no message.\<close>

record tg_user =
  tg_id :: "64 word"
  tg_first_name :: string
  tg_username :: "string option"

record tg_message =
  message_id :: int

record update =
  effective_user :: "tg_user option"
  effective_message :: "tg_message option"

text \<open>The texts the handlers send, by kind and by the values formatted into them.\<close>

datatype notice =
    You_Are_Banned "string option"
  | Flood_Detected
  | Admin_Only
  | Use_Broadcast
  | No_Users_Found
  | Broadcast_Started int int
  | Sending nat int int int
  | Broadcast_Done int int int int

text \<open>What the process does to the outside, in the order it does it: the calls
  made on the transport, a \<^verbatim>\<open>send_message\<close> with whether it returned
  (\<open>True\<close>) or raised, and the commits of the write methods of \<^verbatim>\<open>DB\<close>,
  each with the table as the commit leaves it.\<close>

datatype event =
    Reply_Text notice
  | Edit_Text notice
  | Send_Message int string bool
  | Commit_Users "(int \<times> user_row) list"
  | Commit_Broadcasts "(int \<times> broadcast_row) list"

text \<open>What the handlers cannot decide themselves: whether the \<open>i\<close>-th
  \<^verbatim>\<open>send_message\<close> of a broadcast returns, whether a reply or edit that is not
  wrapped in \<^verbatim>\<open>try\<close> returns, and whether more than 2.5 seconds of wall clock
  have passed since the last progress edit at attempt \<open>i\<close>.\<close>

record env =
  send_returns :: "nat \<Rightarrow> int \<Rightarrow> string \<Rightarrow> bool"
  reply_returns :: "notice \<Rightarrow> bool"
  edit_due :: "nat \<Rightarrow> bool"

text \<open>The process state: the two tables behind \<^verbatim>\<open>db\<close>, the global
  \<^verbatim>\<open>FLOOD\<close>, and the events so far.\<close>

record world =
  users :: users_table
  broadcasts :: broadcasts_table
  FLOOD :: flood
  outbox :: "event list"

text \<open>The exceptions of the modelled code: \<^verbatim>\<open>sqlite3\<close> refusing to bind a
  Python integer, an attribute read on \<^verbatim>\<open>None\<close>, and a failed call on the
  transport. A handler either returns or lets an exception escape to the
  dispatcher.\<close>

datatype error = OverflowError | AttributeError | TelegramError

datatype outcome = Returned | Raised error

section \<open>SQL statements on a keyed table\<close>

text \<open>\<^verbatim>\<open>UPDATE t SET ... WHERE key=?\<close>: every row with that key is rewritten, no
  row is added.\<close>

definition update_where :: "int \<Rightarrow> ('r \<Rightarrow> 'r) \<Rightarrow> (int \<times> 'r) list \<Rightarrow> (int \<times> 'r) list" where
  "update_where k f tbl = map (\<lambda>(k', r). if k' = k then (k', f r) else (k', r)) tbl"

text \<open>\<^verbatim>\<open>INSERT ... ON CONFLICT(key) DO UPDATE SET ...\<close>: a new row when the key is
  free, the update of the existing row otherwise.\<close>

definition insert_or_update :: "int \<Rightarrow> 'r \<Rightarrow> ('r \<Rightarrow> 'r) \<Rightarrow> (int \<times> 'r) list \<Rightarrow> (int \<times> 'r) list" where
  "insert_or_update k new f tbl =
     (case map_of tbl k of
        None \<Rightarrow> tbl @ [(k, new)]
      | Some _ \<Rightarrow> update_where k f tbl)"

section \<open>class DB\<close>

text \<open>A Python integer passed as a statement parameter must fit SQLite's signed
  64-bit INTEGER: otherwise \<^verbatim>\<open>execute\<close> raises \<^verbatim>\<open>OverflowError\<close> before
  the statement runs, and nothing is written. Every method returns its result on
  the right and the exception on the left.\<close>

definition sqlite_int :: "int \<Rightarrow> bool" where
  "sqlite_int i \<longleftrightarrow> - (2 ^ 63) \<le> i \<and> i < 2 ^ 63"

text \<open>\<^verbatim>\<open>x or ""\<close> on an optional string.\<close>

definition or_empty :: "string option \<Rightarrow> string" where
  "or_empty s = (case s of None \<Rightarrow> [] | Some t \<Rightarrow> t)"

text \<open>A method that reads \<^verbatim>\<open>int(time.time())\<close> takes that reading as its
  first argument \<open>ts\<close>; it is the method's own reading of the clock, not a
  parameter of the Python method.\<close>

definition upsert_user :: "int \<Rightarrow> int \<Rightarrow> string option \<Rightarrow> string option \<Rightarrow> users_table
    \<Rightarrow> error + users_table" where
  "upsert_user ts user_id fn un tbl =
     (if \<not> sqlite_int user_id then Inl OverflowError
      else Inr (insert_or_update user_id
        \<lparr>first_name = or_empty fn, username = or_empty un, joined_at = ts, last_seen = ts,
         is_banned = 0, ban_reason = None\<rparr>
        (\<lambda>r. r\<lparr>first_name := or_empty fn, username := or_empty un, last_seen := ts\<rparr>)
        tbl))"

definition set_last_seen :: "int \<Rightarrow> int \<Rightarrow> users_table \<Rightarrow> error + users_table" where
  "set_last_seen ts user_id tbl =
     (if \<not> sqlite_int user_id then Inl OverflowError
      else Inr (update_where user_id (\<lambda>r. r\<lparr>last_seen := ts\<rparr>) tbl))"

definition DB_is_banned :: "users_table \<Rightarrow> int \<Rightarrow> error + bool \<times> string option" where
  "DB_is_banned tbl user_id =
     (if \<not> sqlite_int user_id then Inl OverflowError
      else case map_of tbl user_id of
        None \<Rightarrow> Inr (False, None)
      | Some row \<Rightarrow> Inr (is_banned row = 1, ban_reason row))"

definition ban :: "int \<Rightarrow> int \<Rightarrow> string \<Rightarrow> users_table \<Rightarrow> error + users_table" where
  "ban ts user_id reason tbl =
     (if \<not> sqlite_int user_id then Inl OverflowError
      else Inr (insert_or_update user_id
        \<lparr>first_name = [], username = [], joined_at = ts, last_seen = ts,
         is_banned = 1, ban_reason = Some reason\<rparr>
        (\<lambda>r. r\<lparr>is_banned := 1, ban_reason := Some reason\<rparr>)
        tbl))"

definition unban :: "int \<Rightarrow> users_table \<Rightarrow> error + users_table" where
  "unban user_id tbl =
     (if \<not> sqlite_int user_id then Inl OverflowError
      else Inr (update_where user_id (\<lambda>r. r\<lparr>is_banned := 0, ban_reason := None\<rparr>) tbl))"

text \<open>\<^verbatim>\<open>SELECT user_id FROM users WHERE is_banned=0\<close>, without ORDER BY:
  \<^verbatim>\<open>user_id\<close> is the INTEGER PRIMARY KEY, the rowid of the table, and SQLite
  scans the table by ascending rowid, whatever the order of insertion.\<close>

definition user_ids_active :: "users_table \<Rightarrow> int list" where
  "user_ids_active tbl = sort (map fst (filter (\<lambda>(k, r). is_banned r = 0) tbl))"

text \<open>\<^verbatim>\<open>lastrowid\<close> of an AUTOINCREMENT key: one more than the largest id the
  table has held; rows of \<^verbatim>\<open>broadcasts\<close> are never deleted, so that is the
  largest id present (0 for the empty table).\<close>

definition lastrowid :: "(int \<times> 'r) list \<Rightarrow> int" where
  "lastrowid tbl = fold max (map fst tbl) 0 + 1"

definition log_broadcast :: "int \<Rightarrow> int \<Rightarrow> string \<Rightarrow> broadcasts_table
    \<Rightarrow> error + int \<times> broadcasts_table" where
  "log_broadcast ts adm msg tbl =
     (if \<not> sqlite_int adm then Inl OverflowError
      else
        let bid = lastrowid tbl
        in Inr (bid, tbl @ [(bid, \<lparr>admin_id = adm, message = msg, created_at = ts,
                                    sent_ok = 0, sent_fail = 0\<rparr>)]))"

text \<open>The parameters of \<^verbatim>\<open>update_broadcast_result\<close> are the
  \<^verbatim>\<open>lastrowid\<close> SQLite returned and two counters bounded by the length of a
  Python list: they fit.\<close>

definition update_broadcast_result :: "int \<Rightarrow> int \<Rightarrow> int \<Rightarrow> broadcasts_table \<Rightarrow> broadcasts_table" where
  "update_broadcast_result bid ok fail tbl =
     update_where bid (\<lambda>r. r\<lparr>sent_ok := ok, sent_fail := fail\<rparr>) tbl"

section \<open>Flood control\<close>

text \<open>\<^verbatim>\<open>Flood.hit\<close>, with the clock reading \<open>now\<close> as an argument.\<close>

definition hit :: "int \<Rightarrow> int \<Rightarrow> flood \<Rightarrow> bool \<times> flood" where
  "hit now uid f =
     (let lst = (case bucket f uid of None \<Rightarrow> [] | Some l \<Rightarrow> l);
          lst = filter (\<lambda>t. now - t \<le> window f) lst;
          lst = lst @ [now]
      in (int (length lst) > limit f, f\<lparr>bucket := (bucket f)(uid \<mapsto> lst)\<rparr>))"

text \<open>A run of calls for one id, at the given clock readings, with the value
  each call returned.\<close>

fun hits :: "int list \<Rightarrow> int \<Rightarrow> flood \<Rightarrow> bool list \<times> flood" where
  "hits [] uid f = ([], f)"
| "hits (now # rest) uid f =
     (let (b, f') = hit now uid f; (bs, f'') = hits rest uid f' in (b # bs, f''))"

section \<open>Utilities and the guard\<close>

definition is_admin :: "int \<Rightarrow> update \<Rightarrow> bool" where
  "is_admin OWNER_ID upd =
     (case effective_user upd of
        None \<Rightarrow> False
      | Some u \<Rightarrow> OWNER_ID \<noteq> 0 \<and> sint (tg_id u) = OWNER_ID)"

text \<open>\<^verbatim>\<open>esc_md\<close>: a backslash before each of the Markdown characters
  \<^verbatim>\<open>_*[]()~`>#+-=|{}.!\<close>.\<close>

definition md_special :: "char list" where
  "md_special = ''_*[]()~'' @ [CHR 0x60] @ ''>#+-=|{}.!''"

definition esc_md :: "string \<Rightarrow> string" where
  "esc_md s = concat (map (\<lambda>c. if c \<in> set md_special then [CHR 0x5C, c] else [c]) s)"

text \<open>The text of the ban notice: the reason line is added only for a reason
  that is neither \<^verbatim>\<open>None\<close> nor empty.\<close>

definition banned_text :: "string option \<Rightarrow> notice" where
  "banned_text reason =
     (case reason of
        None \<Rightarrow> You_Are_Banned None
      | Some r \<Rightarrow> if r = [] then You_Are_Banned None else You_Are_Banned (Some (esc_md r)))"

text \<open>A reply inside \<^verbatim>\<open>try ... except Exception: pass\<close>: with a message, the
  call is made and its failure changes nothing; without one,
  \<^verbatim>\<open>update.effective_message.reply_text\<close> raises before any call is made, and
  the exception is swallowed as well.\<close>

definition try_reply :: "notice \<Rightarrow> update \<Rightarrow> world \<Rightarrow> world" where
  "try_reply n upd w =
     (case effective_message upd of
        None \<Rightarrow> w
      | Some m \<Rightarrow> w\<lparr>outbox := outbox w @ [Reply_Text n]\<rparr>)"

text \<open>The state after a write method of \<^verbatim>\<open>DB\<close> has committed.\<close>

definition commit_users :: "users_table \<Rightarrow> world \<Rightarrow> world" where
  "commit_users tbl w = w\<lparr>users := tbl, outbox := outbox w @ [Commit_Users tbl]\<rparr>"

definition commit_broadcasts :: "broadcasts_table \<Rightarrow> world \<Rightarrow> world" where
  "commit_broadcasts tbl w = w\<lparr>broadcasts := tbl, outbox := outbox w @ [Commit_Broadcasts tbl]\<rparr>"

text \<open>\<^verbatim>\<open>guard\<close>. The three clock readings are those of
  \<^verbatim>\<open>upsert_user\<close>, \<^verbatim>\<open>set_last_seen\<close> and \<^verbatim>\<open>FLOOD.hit\<close>, in
  that order; \<^verbatim>\<open>FLOOD.hit\<close> is called only when \<^verbatim>\<open>is_admin\<close> is false
  (short-circuit \<^verbatim>\<open>and\<close>). An exception of a \<^verbatim>\<open>DB\<close> method escapes the
  guard, with the state as the methods before it left it.\<close>

definition guard :: "int \<Rightarrow> int \<Rightarrow> int \<Rightarrow> int \<Rightarrow> update \<Rightarrow> world \<Rightarrow> (error + bool) \<times> world" where
  "guard OWNER_ID t1 t2 t3 upd w =
     (case effective_user upd of
        None \<Rightarrow> (Inr True, w)
      | Some u \<Rightarrow>
          (case upsert_user t1 (sint (tg_id u)) (Some (or_empty (Some (tg_first_name u))))
                  (Some (or_empty (tg_username u))) (users w) of
             Inl err \<Rightarrow> (Inl err, w)
           | Inr tbl1 \<Rightarrow>
               let w1 = commit_users tbl1 w in
               (case set_last_seen t2 (sint (tg_id u)) (users w1) of
                  Inl err \<Rightarrow> (Inl err, w1)
                | Inr tbl2 \<Rightarrow>
                    let w2 = commit_users tbl2 w1 in
                    (case DB_is_banned (users w2) (sint (tg_id u)) of
                       Inl err \<Rightarrow> (Inl err, w2)
                     | Inr (banned, reason) \<Rightarrow>
                         if banned then (Inr False, try_reply (banned_text reason) upd w2)
                         else if is_admin OWNER_ID upd then (Inr True, w2)
                         else
                           let (over, f) = hit t3 (sint (tg_id u)) (FLOOD w2);
                               w3 = w2\<lparr>FLOOD := f\<rparr>
                           in if over then (Inr False, try_reply Flood_Detected upd w3)
                              else (Inr True, w3)))))"

section \<open>Broadcast\<close>

text \<open>\<^verbatim>\<open>str.isspace\<close> on code points below 256, \<^verbatim>\<open>str.strip()\<close> and
  \<^verbatim>\<open>sep.join(xs)\<close>.\<close>

definition py_isspace :: "char \<Rightarrow> bool" where
  "py_isspace c \<longleftrightarrow>
     c \<in> set [CHR 0x09, CHR 0x0A, CHR 0x0B, CHR 0x0C, CHR 0x0D,
               CHR 0x1C, CHR 0x1D, CHR 0x1E, CHR 0x1F, CHR 0x20, CHR 0x85, CHR 0xA0]"

definition strip :: "string \<Rightarrow> string" where
  "strip s = rev (dropWhile py_isspace (rev (dropWhile py_isspace s)))"

fun str_join :: "string \<Rightarrow> string list \<Rightarrow> string" where
  "str_join sep [] = []"
| "str_join sep [x] = x"
| "str_join sep (x # y # zs) = x @ sep @ str_join sep (y # zs)"

text \<open>A reply outside \<^verbatim>\<open>try\<close>: without a message the attribute read
  raises; with one the call is made, and the handler goes on only if it
  returns.\<close>

definition reply_text :: "env \<Rightarrow> notice \<Rightarrow> update \<Rightarrow> world \<Rightarrow> outcome \<times> world" where
  "reply_text e n upd w =
     (case effective_message upd of
        None \<Rightarrow> (Raised AttributeError, w)
      | Some m \<Rightarrow>
          (if reply_returns e n then Returned else Raised TelegramError,
           w\<lparr>outbox := outbox w @ [Reply_Text n]\<rparr>))"

text \<open>The delivery loop of \<^verbatim>\<open>broadcast_cmd\<close> over
  \<^verbatim>\<open>enumerate(user_ids, start=1)\<close>. It carries \<^verbatim>\<open>ok\<close>, \<^verbatim>\<open>fail\<close>
  and the transport calls; it has no access to the tables. The pacing sleep
  changes no state. A progress edit is wrapped in \<^verbatim>\<open>try\<close>.\<close>

fun broadcast_loop :: "env \<Rightarrow> string \<Rightarrow> int \<Rightarrow> (nat \<times> int) list \<Rightarrow> int \<times> int \<times> event list
    \<Rightarrow> int \<times> int \<times> event list" where
  "broadcast_loop e msg n_total [] acc = acc"
| "broadcast_loop e msg n_total ((i, uid) # rest) (ok, fail, out) =
     (let r = send_returns e i uid msg;
          ok' = (if r then ok + 1 else ok);
          fail' = (if r then fail else fail + 1);
          out' = out @ [Send_Message uid msg r];
          out'' = (if edit_due e i then out' @ [Edit_Text (Sending i n_total ok' fail')] else out')
      in broadcast_loop e msg n_total rest (ok', fail', out''))"

text \<open>Lines 691 to 730 of \<^verbatim>\<open>broadcast_cmd\<close>: what runs once the guard and
  the admin check have passed. \<open>ts\<close> is the clock reading of
  \<^verbatim>\<open>log_broadcast\<close>. Reading \<^verbatim>\<open>update.effective_user.id\<close> of an
  update without a user raises. The last edit is made on the message that the
  start notice returned.\<close>

definition broadcast_run :: "env \<Rightarrow> int \<Rightarrow> update \<Rightarrow> string list \<Rightarrow> world \<Rightarrow> outcome \<times> world" where
  "broadcast_run e ts upd args w =
     (let msg = strip (str_join '' '' args) in
      if msg = [] then reply_text e Use_Broadcast upd w
      else
        let user_ids = user_ids_active (users w) in
        if user_ids = [] then reply_text e No_Users_Found upd w
        else
          case effective_user upd of
            None \<Rightarrow> (Raised AttributeError, w)
          | Some u \<Rightarrow>
              (case log_broadcast ts (sint (tg_id u)) msg (broadcasts w) of
                 Inl err \<Rightarrow> (Raised err, w)
               | Inr (bid, tbl) \<Rightarrow>
                   let w1 = commit_broadcasts tbl w;
                       n_total = int (length user_ids);
                       (started, w2) = reply_text e (Broadcast_Started n_total bid) upd w1
                   in case started of
                        Raised err \<Rightarrow> (Raised err, w2)
                      | Returned \<Rightarrow>
                          let (ok, fail, out) =
                                broadcast_loop e msg n_total (enumerate 1 user_ids) (0, 0, outbox w2);
                              w3 = w2\<lparr>outbox := out\<rparr>;
                              w4 = commit_broadcasts
                                     (update_broadcast_result bid ok fail (broadcasts w3)) w3;
                              fin = Broadcast_Done n_total ok fail bid
                          in (if reply_returns e fin then Returned else Raised TelegramError,
                              w4\<lparr>outbox := outbox w4 @ [Edit_Text fin]\<rparr>)))"

text \<open>\<^verbatim>\<open>broadcast_cmd\<close>: the guard (clock readings \<open>t1\<close>, \<open>t2\<close>, \<open>t3\<close>), the
  admin check, then the run above (clock reading \<open>t4\<close>).\<close>

definition broadcast_cmd :: "env \<Rightarrow> int \<Rightarrow> int \<Rightarrow> int \<Rightarrow> int \<Rightarrow> int \<Rightarrow> update \<Rightarrow> string list \<Rightarrow> world
    \<Rightarrow> outcome \<times> world" where
  "broadcast_cmd e OWNER_ID t1 t2 t3 t4 upd args w =
     (case guard OWNER_ID t1 t2 t3 upd w of
        (Inl err, w1) \<Rightarrow> (Raised err, w1)
      | (Inr pass, w1) \<Rightarrow>
          if \<not> pass then (Returned, w1)
          else if \<not> is_admin OWNER_ID upd then reply_text e Admin_Only upd w1
          else broadcast_run e t4 upd args w1)"

section \<open>Notions used to state the results\<close>

text \<open>The window stored for an id, empty when the id has none.\<close>

definition stored :: "flood \<Rightarrow> int \<Rightarrow> int list" where
  "stored f uid = (case bucket f uid of None \<Rightarrow> [] | Some l \<Rightarrow> l)"

text \<open>The invariant of the moderation columns: a row with a reason is a
  banned row.\<close>

definition reason_only_if_banned :: "users_table \<Rightarrow> bool" where
  "reason_only_if_banned tbl = list_all (\<lambda>(k, r). ban_reason r = None \<or> is_banned r = 1) tbl"

text \<open>The table once a method has returned or raised: a method that raises has
  written nothing.\<close>

definition table_after :: "users_table \<Rightarrow> error + users_table \<Rightarrow> users_table" where
  "table_after tbl res = (case res of Inl err \<Rightarrow> tbl | Inr tbl' \<Rightarrow> tbl')"

text \<open>The mutators of the recipient store, and a history of them run from a
  table.\<close>

datatype store_op =
    Upsert_User int int "string option" "string option"
  | Set_Last_Seen int int
  | Ban int int string
  | Unban int

fun apply_store_op :: "store_op \<Rightarrow> users_table \<Rightarrow> users_table" where
  "apply_store_op (Upsert_User ts uid fn un) tbl = table_after tbl (upsert_user ts uid fn un tbl)"
| "apply_store_op (Set_Last_Seen ts uid) tbl = table_after tbl (set_last_seen ts uid tbl)"
| "apply_store_op (Ban ts uid reason) tbl = table_after tbl (ban ts uid reason tbl)"
| "apply_store_op (Unban uid) tbl = table_after tbl (unban uid tbl)"

definition run_store :: "store_op list \<Rightarrow> users_table \<Rightarrow> users_table" where
  "run_store ops tbl = fold apply_store_op ops tbl"

text \<open>The \<^verbatim>\<open>send_message\<close> calls among the events, and the commits to
  \<^verbatim>\<open>broadcasts\<close> among them.\<close>

definition deliveries :: "event list \<Rightarrow> (int \<times> string \<times> bool) list" where
  "deliveries out = concat (map (\<lambda>ev. case ev of Send_Message uid msg r \<Rightarrow> [(uid, msg, r)] | _ \<Rightarrow> []) out)"

definition broadcast_commits :: "event list \<Rightarrow> broadcasts_table list" where
  "broadcast_commits out = concat (map (\<lambda>ev. case ev of Commit_Broadcasts tbl \<Rightarrow> [tbl] | _ \<Rightarrow> []) out)"

section \<open>Lemmas about tables\<close>

lemma map_of_update_where:
  "map_of (update_where k f tbl) k' = (if k' = k then map_option f (map_of tbl k) else map_of tbl k')"
  by (induction tbl) (auto simp: update_where_def)

lemma keys_update_where: "map fst (update_where k f tbl) = map fst tbl"
  by (induction tbl) (auto simp: update_where_def)

lemma update_where_absent: "map_of tbl k = None \<Longrightarrow> update_where k f tbl = tbl"
  by (induction tbl) (auto simp: update_where_def split: if_splits)

lemma update_where_twice: "update_where k g (update_where k f tbl) = update_where k (g \<circ> f) tbl"
  by (induction tbl) (auto simp: update_where_def)

lemma map_of_insert_or_update:
  "map_of (insert_or_update k new f tbl) k' =
     (if k' = k then Some (case map_of tbl k of None \<Rightarrow> new | Some r \<Rightarrow> f r) else map_of tbl k')"
  by (auto simp: insert_or_update_def map_of_update_where map_add_def split: option.splits)

lemma keys_insert_or_update:
  "map fst (insert_or_update k new f tbl) =
     (case map_of tbl k of None \<Rightarrow> map fst tbl @ [k] | Some _ \<Rightarrow> map fst tbl)"
  by (simp add: insert_or_update_def keys_update_where split: option.splits)

lemma list_all_update_where:
  "list_all (\<lambda>(k, r). P r) tbl \<Longrightarrow> (\<And>r. P r \<Longrightarrow> P (f r)) \<Longrightarrow> list_all (\<lambda>(k, r). P r) (update_where k' f tbl)"
  by (induction tbl) (auto simp: update_where_def split: if_splits)

lemma sqlite_int_sint: "sqlite_int (sint (x :: 64 word))"
  using sint_ge [of x] sint_lt [of x] by (simp add: sqlite_int_def)

lemma inv_upsert:
  "reason_only_if_banned tbl \<Longrightarrow> reason_only_if_banned (table_after tbl (upsert_user ts uid fn un tbl))"
  unfolding reason_only_if_banned_def upsert_user_def insert_or_update_def table_after_def
  by (auto split: option.splits intro!: list_all_update_where)

lemma inv_set_last_seen:
  "reason_only_if_banned tbl \<Longrightarrow> reason_only_if_banned (table_after tbl (set_last_seen ts uid tbl))"
  unfolding reason_only_if_banned_def set_last_seen_def table_after_def
  by (auto intro!: list_all_update_where)

lemma inv_ban:
  "reason_only_if_banned tbl \<Longrightarrow> reason_only_if_banned (table_after tbl (ban ts uid reason tbl))"
  unfolding reason_only_if_banned_def ban_def insert_or_update_def table_after_def
  by (auto split: option.splits intro!: list_all_update_where)

lemma inv_unban:
  "reason_only_if_banned tbl \<Longrightarrow> reason_only_if_banned (table_after tbl (unban uid tbl))"
  unfolding reason_only_if_banned_def unban_def table_after_def
  by (auto intro!: list_all_update_where)

lemma inv_apply: "reason_only_if_banned tbl \<Longrightarrow> reason_only_if_banned (apply_store_op x tbl)"
  by (cases x) (simp_all add: inv_upsert inv_set_last_seen inv_ban inv_unban)

lemma inv_run: "reason_only_if_banned tbl \<Longrightarrow> reason_only_if_banned (run_store ops tbl)"
  unfolding run_store_def by (induction ops arbitrary: tbl) (simp_all add: inv_apply)

section \<open>Lemmas about the flood window\<close>

lemma hit_eq:
  "hit now uid f =
     (int (length (filter (\<lambda>t. now - t \<le> window f) (stored f uid) @ [now])) > limit f,
      f\<lparr>bucket := (bucket f)(uid \<mapsto> filter (\<lambda>t. now - t \<le> window f) (stored f uid) @ [now])\<rparr>)"
  by (simp add: hit_def stored_def Let_def)

lemma hit_all_retained:
  assumes "\<forall>t\<in>set (stored f uid). now - t \<le> window f"
  shows "hit now uid f =
     (int (length (stored f uid)) + 1 > limit f, f\<lparr>bucket := (bucket f)(uid \<mapsto> stored f uid @ [now])\<rparr>)"
proof -
  have "filter (\<lambda>t. now - t \<le> window f) (stored f uid) = stored f uid"
    using assms by (simp add: filter_id_conv)
  then show ?thesis by (auto simp: hit_eq)
qed

lemma hit_all_stale:
  assumes "\<forall>t\<in>set (stored f uid). now - t > window f"
  shows "hit now uid f = (1 > limit f, f\<lparr>bucket := (bucket f)(uid \<mapsto> [now])\<rparr>)"
proof -
  have "filter (\<lambda>t. now - t \<le> window f) (stored f uid) = []"
    using assms by (auto simp: filter_empty_conv)
  then show ?thesis by (simp add: hit_eq)
qed

lemma hits_append:
  "hits (xs @ ys) uid f =
     (fst (hits xs uid f) @ fst (hits ys uid (snd (hits xs uid f))),
      snd (hits ys uid (snd (hits xs uid f))))"
  by (induction xs arbitrary: f) (simp_all add: split_beta Let_def)

lemma hits_retained:
  "\<forall>j<length ts. \<forall>t\<in>set (stored f uid @ take j ts). ts ! j - t \<le> window f \<Longrightarrow>
     fst (hits ts uid f) = map (\<lambda>j. int (length (stored f uid)) + int j + 1 > limit f) [0..<length ts]
     \<and> stored (snd (hits ts uid f)) uid = stored f uid @ ts
     \<and> window (snd (hits ts uid f)) = window f
     \<and> limit (snd (hits ts uid f)) = limit f"
proof (induction ts arbitrary: f)
  case Nil
  show ?case by simp
next
  case (Cons now rest)
  let ?f' = "f\<lparr>bucket := (bucket f)(uid \<mapsto> stored f uid @ [now])\<rparr>"
  from Cons.prems have "\<forall>t\<in>set (stored f uid). now - t \<le> window f"
    by fastforce
  then have h: "hit now uid f = (int (length (stored f uid)) + 1 > limit f, ?f')"
    by (rule hit_all_retained)
  have st: "stored ?f' uid = stored f uid @ [now]"
    by (simp add: stored_def)
  have "\<forall>j<length rest. \<forall>t\<in>set (stored ?f' uid @ take j rest). rest ! j - t \<le> window ?f'"
  proof (intro allI impI ballI)
    fix j t assume j: "j < length rest" and t: "t \<in> set (stored ?f' uid @ take j rest)"
    from j have "Suc j < length (now # rest)" by simp
    moreover from t have "t \<in> set (stored f uid @ take (Suc j) (now # rest))"
      by (auto simp: st)
    ultimately have "(now # rest) ! Suc j - t \<le> window f"
      using Cons.prems by blast
    then show "rest ! j - t \<le> window ?f'" by simp
  qed
  from Cons.IH [OF this] h show ?case
    by (auto simp: st map_upt_Suc split_beta simp del: upt_Suc)
qed


lemma flood_answers:
  "map (\<lambda>j. (7::int) < 1 + int j + 1) [0..<7 + m] = replicate 6 False @ replicate (Suc m) True"
  by (auto simp: list_eq_iff_nth_eq nth_append simp del: replicate.simps)

section \<open>Lemmas about the guard\<close>

lemma DB_is_banned_after_upsert:
  assumes "sqlite_int uid"
  shows "\<exists>tbl1 tbl2. upsert_user t1 uid fn un tbl = Inr tbl1 \<and> set_last_seen t2 uid tbl1 = Inr tbl2
    \<and> DB_is_banned tbl2 uid = DB_is_banned tbl uid
    \<and> (\<exists>b. DB_is_banned tbl uid = Inr b)"
  using assms
  by (auto simp: DB_is_banned_def set_last_seen_def upsert_user_def map_of_update_where
      map_of_insert_or_update split: option.splits)

section \<open>Lemmas about the broadcast\<close>

lemma fold_max_bounds:
  fixes a :: int
  shows "a \<le> fold max xs a \<and> (\<forall>x\<in>set xs. x \<le> fold max xs a)"
proof (induction xs arbitrary: a)
  case Nil
  show ?case by simp
next
  case (Cons y ys)
  from Cons.IH [of "max y a"] show ?case by auto
qed

lemma lastrowid_fresh: "map_of tbl (lastrowid tbl) = None"
proof -
  have "lastrowid tbl \<notin> set (map fst tbl)"
    using fold_max_bounds [of 0 "map fst tbl"] by (fastforce simp: lastrowid_def)
  then show ?thesis by (simp add: map_of_eq_None_iff)
qed

lemma update_where_new_row:
  "map_of tbl k = None \<Longrightarrow> update_where k f (tbl @ [(k, r)]) = tbl @ [(k, f r)]"
  using update_where_absent [of tbl k f] by (simp add: update_where_def)

lemma deliveries_simps:
  "deliveries [] = []"
  "deliveries (Reply_Text n # out) = deliveries out"
  "deliveries (Edit_Text n # out) = deliveries out"
  "deliveries (Send_Message uid msg r # out) = (uid, msg, r) # deliveries out"
  "deliveries (Commit_Users ut # out) = deliveries out"
  "deliveries (Commit_Broadcasts bt # out) = deliveries out"
  by (simp_all add: deliveries_def)

lemma deliveries_append: "deliveries (xs @ ys) = deliveries xs @ deliveries ys"
  by (simp add: deliveries_def)

lemma broadcast_commits_simps:
  "broadcast_commits [] = []"
  "broadcast_commits (Reply_Text n # out) = broadcast_commits out"
  "broadcast_commits (Edit_Text n # out) = broadcast_commits out"
  "broadcast_commits (Send_Message uid msg r # out) = broadcast_commits out"
  "broadcast_commits (Commit_Users ut # out) = broadcast_commits out"
  "broadcast_commits (Commit_Broadcasts bt # out) = bt # broadcast_commits out"
  by (simp_all add: broadcast_commits_def)

lemma broadcast_commits_append:
  "broadcast_commits (xs @ ys) = broadcast_commits xs @ broadcast_commits ys"
  by (simp add: broadcast_commits_def)

lemma broadcast_loop_result:
  "broadcast_loop e msg n xs (ok, fail, out) = (ok', fail', out') \<Longrightarrow>
     ok' = ok + int (length (filter (\<lambda>(i, uid). send_returns e i uid msg) xs))
     \<and> fail' = fail + int (length (filter (\<lambda>(i, uid). \<not> send_returns e i uid msg) xs))
     \<and> (\<exists>mid. out' = out @ mid
           \<and> deliveries mid = map (\<lambda>(i, uid). (uid, msg, send_returns e i uid msg)) xs
           \<and> broadcast_commits mid = [])"
proof (induction xs arbitrary: ok fail out)
  case Nil
  then show ?case by (simp add: deliveries_simps broadcast_commits_simps)
next
  case (Cons x xs)
  obtain i uid where x: "x = (i, uid)" by (cases x)
  let ?r = "send_returns e i uid msg"
  let ?ok = "if ?r then ok + 1 else ok"
  let ?fail = "if ?r then fail else fail + 1"
  let ?step = "Send_Message uid msg ?r
      # (if edit_due e i then [Edit_Text (Sending i n ?ok ?fail)] else [])"
  from Cons.prems have "broadcast_loop e msg n xs (?ok, ?fail, out @ ?step) = (ok', fail', out')"
    by (auto simp: x Let_def split: if_splits)
  from Cons.IH [OF this] obtain mid where
    ok: "ok' = ?ok + int (length (filter (\<lambda>(i, uid). send_returns e i uid msg) xs))"
    and fail: "fail' = ?fail + int (length (filter (\<lambda>(i, uid). \<not> send_returns e i uid msg) xs))"
    and out: "out' = (out @ ?step) @ mid"
    and del: "deliveries mid = map (\<lambda>(i, uid). (uid, msg, send_returns e i uid msg)) xs"
    and com: "broadcast_commits mid = []"
    by blast
  have "out' = out @ (?step @ mid)"
    using out by simp
  moreover have "deliveries (?step @ mid)
      = map (\<lambda>(i, uid). (uid, msg, send_returns e i uid msg)) (x # xs)"
    by (simp add: x del deliveries_append deliveries_simps)
  moreover have "broadcast_commits (?step @ mid) = []"
    by (simp add: com broadcast_commits_append broadcast_commits_simps)
  ultimately show ?case
    using ok fail by (auto simp: x)
qed

lemma guard_keeps_broadcasts:
  "broadcasts (snd (guard OWNER_ID t1 t2 t3 upd w)) = broadcasts w
   \<and> deliveries (outbox (snd (guard OWNER_ID t1 t2 t3 upd w))) = deliveries (outbox w)
   \<and> broadcast_commits (outbox (snd (guard OWNER_ID t1 t2 t3 upd w))) = broadcast_commits (outbox w)"
  by (auto simp: guard_def Let_def split_beta try_reply_def commit_users_def
      deliveries_append deliveries_simps broadcast_commits_append broadcast_commits_simps
      split: option.splits sum.splits)

lemma count_split:
  "int (length (filter P xs)) = int (length xs) - int (length (filter (\<lambda>x. \<not> P x) xs))"
  using sum_length_filter_compl [of P xs] by simp

lemma broadcast_run_rejects:
  "strip (str_join '' '' args) = [] \<or> user_ids_active (users w) = [] \<Longrightarrow>
     snd (broadcast_run e ts upd args w)
       = (if effective_message upd = None then w
          else w\<lparr>outbox := outbox w @
            [Reply_Text (if strip (str_join '' '' args) = [] then Use_Broadcast else No_Users_Found)]\<rparr>)"
  by (auto simp: broadcast_run_def Let_def reply_text_def split: option.splits)

lemma broadcast_run_completes:
  assumes u: "effective_user upd = Some u"
    and ne: "strip (str_join '' '' args) \<noteq> []"
    and some: "user_ids_active (users w) \<noteq> []"
    and log: "log_broadcast ts (sint (tg_id u)) (strip (str_join '' '' args)) (broadcasts w) = Inr (bid, tbl)"
    and m: "effective_message upd \<noteq> None"
    and started: "reply_returns e (Broadcast_Started (int (length (user_ids_active (users w)))) bid)"
    and loop: "broadcast_loop e (strip (str_join '' '' args)) (int (length (user_ids_active (users w))))
                 (enumerate 1 (user_ids_active (users w)))
                 (0, 0, outbox w @ [Commit_Broadcasts tbl,
                    Reply_Text (Broadcast_Started (int (length (user_ids_active (users w)))) bid)])
               = (ok, fail, out)"
  shows "broadcast_run e ts upd args w =
    (if reply_returns e (Broadcast_Done (int (length (user_ids_active (users w)))) ok fail bid)
     then Returned else Raised TelegramError,
     w\<lparr>broadcasts := update_broadcast_result bid ok fail tbl,
       outbox := out @ [Commit_Broadcasts (update_broadcast_result bid ok fail tbl),
          Edit_Text (Broadcast_Done (int (length (user_ids_active (users w)))) ok fail bid)]\<rparr>)"
  using ne some started loop m
  by (auto simp: broadcast_run_def Let_def u log reply_text_def commit_broadcasts_def)

lemma broadcast_start_notice_raises:
  assumes u: "effective_user upd = Some u"
    and ne: "strip (str_join '' '' args) \<noteq> []"
    and some: "user_ids_active (users w) \<noteq> []"
    and log: "log_broadcast ts (sint (tg_id u)) (strip (str_join '' '' args)) (broadcasts w) = Inr (bid, tbl)"
    and no: "\<not> (effective_message upd \<noteq> None
            \<and> reply_returns e (Broadcast_Started (int (length (user_ids_active (users w)))) bid))"
  shows "broadcast_run e ts upd args w =
    (Raised (if effective_message upd = None then AttributeError else TelegramError),
     w\<lparr>broadcasts := tbl,
       outbox := outbox w @ [Commit_Broadcasts tbl]
         @ (if effective_message upd = None then []
            else [Reply_Text (Broadcast_Started (int (length (user_ids_active (users w)))) bid)])\<rparr>)"
  using ne some no
  by (auto simp: broadcast_run_def Let_def u log reply_text_def commit_broadcasts_def)

section \<open>The guard without a user\<close>

text \<open>C9: an update without a user passes the guard and leaves the whole state
  as it was: no row is written, no ban is looked up, no flood window changes and
  nothing is sent.\<close>

theorem guard_no_user:
  "effective_user upd = None \<Longrightarrow> guard OWNER_ID t1 t2 t3 upd w = (Inr True, w)"
  by (simp add: guard_def)

theorem guard_no_user_witness:
  "effective_user \<lparr>effective_user = None, effective_message = Some \<lparr>message_id = 1\<rparr>\<rparr> = None
   \<and> guard 5 10 10 10 \<lparr>effective_user = None, effective_message = Some \<lparr>message_id = 1\<rparr>\<rparr>
     \<lparr>users = [], broadcasts = [], FLOOD = \<lparr>window = 8, limit = 7, bucket = Map.empty\<rparr>, outbox = []\<rparr>
   = (Inr True, \<lparr>users = [], broadcasts = [], FLOOD = \<lparr>window = 8, limit = 7, bucket = Map.empty\<rparr>,
             outbox = []\<rparr>)"
  using guard_no_user [of "\<lparr>effective_user = None, effective_message = Some \<lparr>message_id = 1\<rparr>\<rparr>" 5 10 10 10
      "\<lparr>users = [], broadcasts = [], FLOOD = \<lparr>window = 8, limit = 7, bucket = Map.empty\<rparr>, outbox = []\<rparr>"]
  by simp

section \<open>The recipient store\<close>

text \<open>C5, amended: for an id that SQLite can hold (a signed 64-bit integer),
  \<^verbatim>\<open>ban\<close> returns; on an id without a row it creates the row with empty name
  fields, \<^verbatim>\<open>is_banned = 1\<close> and the given reason; on an id with a row it sets
  \<^verbatim>\<open>is_banned = 1\<close> and replaces the reason, leaving the other columns. A later
  \<^verbatim>\<open>unban\<close>, on any table \<open>tbl'\<close> holding the row, returns and sets
  \<^verbatim>\<open>is_banned = 0\<close> and \<^verbatim>\<open>ban_reason = NULL\<close>, keeps every key of the table and
  keeps \<^verbatim>\<open>joined_at\<close>.\<close>

theorem ban_then_unban:
  assumes "sqlite_int uid"
  shows "\<exists>t u. ban ts uid reason tbl = Inr t \<and> unban uid tbl' = Inr u
    \<and> (map_of tbl uid = None \<longrightarrow>
          map_of t uid =
            Some \<lparr>first_name = [], username = [], joined_at = ts, last_seen = ts,
                  is_banned = 1, ban_reason = Some reason\<rparr>)
    \<and> (\<forall>r. map_of tbl uid = Some r \<longrightarrow>
          map_of t uid = Some (r\<lparr>is_banned := 1, ban_reason := Some reason\<rparr>))
    \<and> DB_is_banned t uid = Inr (True, Some reason)
    \<and> (\<forall>r. map_of tbl' uid = Some r \<longrightarrow>
          map_of u uid = Some (r\<lparr>is_banned := 0, ban_reason := None\<rparr>))
    \<and> map fst u = map fst tbl'
    \<and> map_option joined_at (map_of u uid) = map_option joined_at (map_of tbl' uid)
    \<and> DB_is_banned u uid = Inr (False, None)"
  using assms
  by (simp add: ban_def unban_def DB_is_banned_def map_of_insert_or_update map_of_update_where
      keys_update_where option.map_comp comp_def split: option.splits)

theorem ban_then_unban_witness:
  "sqlite_int 7
   \<and> map_of ([] :: users_table) 7 = None
   \<and> ban 100 7 ''spam'' [] =
        Inr [(7, \<lparr>first_name = [], username = [], joined_at = 100, last_seen = 100,
                  is_banned = 1, ban_reason = Some ''spam''\<rparr>)]
   \<and> ban 200 7 ''again''
        [(7, \<lparr>first_name = [], username = [], joined_at = 100, last_seen = 100,
               is_banned = 1, ban_reason = Some ''spam''\<rparr>)] =
        Inr [(7, \<lparr>first_name = [], username = [], joined_at = 100, last_seen = 100,
                  is_banned = 1, ban_reason = Some ''again''\<rparr>)]
   \<and> unban 7
        [(7, \<lparr>first_name = [], username = [], joined_at = 100, last_seen = 100,
               is_banned = 1, ban_reason = Some ''spam''\<rparr>)] =
        Inr [(7, \<lparr>first_name = [], username = [], joined_at = 100, last_seen = 100,
                  is_banned = 0, ban_reason = None\<rparr>)]"
proof -
  have r: "sqlite_int 7"
    by (simp add: sqlite_int_def)
  from ban_then_unban [OF r, of 100 "''spam''" "[]"
      "[(7, \<lparr>first_name = [], username = [], joined_at = 100, last_seen = 100,
             is_banned = 1, ban_reason = Some ''spam''\<rparr>)]"]
    ban_then_unban [OF r, of 200 "''again''"
      "[(7, \<lparr>first_name = [], username = [], joined_at = 100, last_seen = 100,
             is_banned = 1, ban_reason = Some ''spam''\<rparr>)]" "[]"]
  show ?thesis
    using r by (auto simp: ban_def unban_def insert_or_update_def update_where_def)
qed

text \<open>Without the bound on the id the statement fails: \<^verbatim>\<open>/ban\<close> accepts
  \<open>2\<^sup>6\<^sup>3\<close>, for which \<^verbatim>\<open>ban\<close> raises \<^verbatim>\<open>OverflowError\<close> and creates no
  row.\<close>

theorem ban_out_of_range_counterexample:
  "map_of ([] :: users_table) 9223372036854775808 = None
   \<and> ban 100 9223372036854775808 ''spam'' [] = Inl OverflowError
   \<and> table_after [] (ban 100 9223372036854775808 ''spam'' []) = []"
  by (simp add: ban_def sqlite_int_def table_after_def)

text \<open>C6: \<^verbatim>\<open>upsert_user\<close> on an id that has a row (a key of the table, hence
  an integer SQLite holds) overwrites \<^verbatim>\<open>first_name\<close>, \<^verbatim>\<open>username\<close> and
  \<^verbatim>\<open>last_seen\<close> (with the clock reading) and nothing else: \<^verbatim>\<open>joined_at\<close>,
  \<^verbatim>\<open>is_banned\<close> and \<^verbatim>\<open>ban_reason\<close> stay, the other rows stay, no row is
  added. Calling it again with the same arguments changes nothing but
  \<^verbatim>\<open>last_seen\<close>, which takes the later clock reading.\<close>

theorem upsert_existing:
  assumes "map_of tbl uid = Some r" and "sqlite_int uid"
  shows "\<exists>t. upsert_user now uid fn un tbl = Inr t
     \<and> map_of t uid = Some (r\<lparr>first_name := or_empty fn, username := or_empty un, last_seen := now\<rparr>)
     \<and> (\<exists>r'. map_of t uid = Some r'
            \<and> joined_at r' = joined_at r \<and> is_banned r' = is_banned r \<and> ban_reason r' = ban_reason r
            \<and> last_seen r' = now)
     \<and> (\<forall>k. k \<noteq> uid \<longrightarrow> map_of t k = map_of tbl k)
     \<and> map fst t = map fst tbl
     \<and> upsert_user now uid fn un t = Inr t
     \<and> upsert_user now' uid fn un t = set_last_seen now' uid t
     \<and> upsert_user now' uid fn un t = upsert_user now' uid fn un tbl
     \<and> (now \<le> now' \<longrightarrow>
          (\<exists>t' r1 r2. upsert_user now' uid fn un t = Inr t'
             \<and> map_of t uid = Some r1 \<and> map_of t' uid = Some r2
             \<and> last_seen r1 \<le> last_seen r2 \<and> last_seen r2 = now'))"
  using assms
  by (simp add: upsert_user_def set_last_seen_def insert_or_update_def map_of_update_where
      keys_update_where update_where_twice comp_def)

theorem upsert_existing_witness:
  "sqlite_int 7
   \<and> map_of [(7, \<lparr>first_name = [], username = [], joined_at = 5, last_seen = 5,
                  is_banned = 1, ban_reason = Some ''spam''\<rparr>)] 7 =
     Some \<lparr>first_name = [], username = [], joined_at = 5, last_seen = 5,
           is_banned = 1, ban_reason = Some ''spam''\<rparr>
   \<and> upsert_user 10 7 (Some ''Ann'') None
        [(7, \<lparr>first_name = [], username = [], joined_at = 5, last_seen = 5,
               is_banned = 1, ban_reason = Some ''spam''\<rparr>)] =
     Inr [(7, \<lparr>first_name = ''Ann'', username = [], joined_at = 5, last_seen = 10,
               is_banned = 1, ban_reason = Some ''spam''\<rparr>)]
   \<and> upsert_user 12 7 (Some ''Ann'') None
        [(7, \<lparr>first_name = ''Ann'', username = [], joined_at = 5, last_seen = 10,
               is_banned = 1, ban_reason = Some ''spam''\<rparr>)] =
     Inr [(7, \<lparr>first_name = ''Ann'', username = [], joined_at = 5, last_seen = 12,
               is_banned = 1, ban_reason = Some ''spam''\<rparr>)]"
proof -
  have r: "sqlite_int 7"
    by (simp add: sqlite_int_def)
  have m: "map_of [(7, \<lparr>first_name = [], username = [], joined_at = 5, last_seen = 5,
                  is_banned = 1, ban_reason = Some ''spam''\<rparr>)] (7 :: int) =
     Some \<lparr>first_name = [], username = [], joined_at = 5, last_seen = 5,
           is_banned = 1, ban_reason = Some ''spam''\<rparr>"
    by simp
  from upsert_existing [OF m r, of 10 "Some ''Ann''" None 12]
  show ?thesis
    using r by (auto simp: upsert_user_def set_last_seen_def insert_or_update_def update_where_def
        or_empty_def)
qed

text \<open>C7: "a row with a reason is a banned row" holds after every history of
  store operations from the empty table and is preserved by each of
  \<^verbatim>\<open>upsert_user\<close>, \<^verbatim>\<open>set_last_seen\<close>, \<^verbatim>\<open>ban\<close> and \<^verbatim>\<open>unban\<close>,
  whether the method returns or raises; whenever \<^verbatim>\<open>unban\<close> returns it has
  cleared \<^verbatim>\<open>is_banned\<close> and \<^verbatim>\<open>ban_reason\<close> in the same statement, and it
  returns for every id SQLite can hold.\<close>

theorem reason_only_if_banned_invariant:
  "reason_only_if_banned (run_store ops [])
   \<and> (reason_only_if_banned tbl \<longrightarrow>
        reason_only_if_banned (table_after tbl (upsert_user ts uid fn un tbl))
        \<and> reason_only_if_banned (table_after tbl (set_last_seen ts uid tbl))
        \<and> reason_only_if_banned (table_after tbl (ban ts uid reason tbl))
        \<and> reason_only_if_banned (table_after tbl (unban uid tbl)))
   \<and> (\<forall>t. unban uid tbl = Inr t \<longrightarrow> (\<forall>r. map_of tbl uid = Some r \<longrightarrow>
        (\<exists>r'. map_of t uid = Some r' \<and> is_banned r' = 0 \<and> ban_reason r' = None)))
   \<and> (sqlite_int uid \<longrightarrow> (\<exists>t. unban uid tbl = Inr t))"
proof -
  have "reason_only_if_banned ([] :: users_table)"
    by (simp add: reason_only_if_banned_def)
  then have "reason_only_if_banned (run_store ops [])"
    by (rule inv_run)
  moreover have "\<forall>t. unban uid tbl = Inr t \<longrightarrow> (\<forall>r. map_of tbl uid = Some r \<longrightarrow>
        (\<exists>r'. map_of t uid = Some r' \<and> is_banned r' = 0 \<and> ban_reason r' = None))"
    by (auto simp: unban_def map_of_update_where split: if_splits)
  moreover have "sqlite_int uid \<longrightarrow> (\<exists>t. unban uid tbl = Inr t)"
    by (simp add: unban_def)
  ultimately show ?thesis
    using inv_upsert inv_set_last_seen inv_ban inv_unban by blast
qed

theorem reason_only_if_banned_invariant_witness:
  "reason_only_if_banned (run_store [Upsert_User 1 7 (Some ''Ann'') None, Ban 2 7 ''spam'', Ban 3 8 ''x'',
       Ban 3 9223372036854775808 ''y'', Set_Last_Seen 4 7, Unban 7] [])
   \<and> sqlite_int 8
   \<and> reason_only_if_banned
        [(8, \<lparr>first_name = [], username = [], joined_at = 3, last_seen = 3, is_banned = 1,
               ban_reason = Some ''x''\<rparr>)]
   \<and> unban 8
        [(8, \<lparr>first_name = [], username = [], joined_at = 3, last_seen = 3, is_banned = 1,
               ban_reason = Some ''x''\<rparr>)] =
       Inr [(8, \<lparr>first_name = [], username = [], joined_at = 3, last_seen = 3, is_banned = 0,
               ban_reason = None\<rparr>)]
   \<and> reason_only_if_banned
        [(8, \<lparr>first_name = [], username = [], joined_at = 3, last_seen = 3, is_banned = 0,
               ban_reason = None\<rparr>)]"
  using reason_only_if_banned_invariant [of "[Upsert_User 1 7 (Some ''Ann'') None, Ban 2 7 ''spam'', Ban 3 8 ''x'',
       Ban 3 9223372036854775808 ''y'', Set_Last_Seen 4 7, Unban 7]"
       "[(8, \<lparr>first_name = [], username = [], joined_at = 3, last_seen = 3, is_banned = 1,
               ban_reason = Some ''x''\<rparr>)]" 0 8 None None "[]"]
  by (simp add: unban_def update_where_def reason_only_if_banned_def sqlite_int_def table_after_def)

text \<open>C8, amended: for an id that SQLite can hold and that has no row,
  \<^verbatim>\<open>is_banned\<close> answers \<^verbatim>\<open>(False, None)\<close>, and \<^verbatim>\<open>set_last_seen\<close> and
  \<^verbatim>\<open>unban\<close> return with the table as it was: none of them raises.\<close>

theorem unknown_id_sentinels:
  "sqlite_int uid \<Longrightarrow> map_of tbl uid = None \<Longrightarrow>
     DB_is_banned tbl uid = Inr (False, None)
     \<and> set_last_seen ts uid tbl = Inr tbl
     \<and> unban uid tbl = Inr tbl"
  by (simp add: DB_is_banned_def set_last_seen_def unban_def update_where_absent)

theorem unknown_id_sentinels_witness:
  "sqlite_int 9
   \<and> map_of [(7 :: int, \<lparr>first_name = [], username = [], joined_at = 5, last_seen = 5,
                  is_banned = 1, ban_reason = Some ''spam''\<rparr>)] 9 = None
   \<and> DB_is_banned [(7, \<lparr>first_name = [], username = [], joined_at = 5, last_seen = 5,
                  is_banned = 1, ban_reason = Some ''spam''\<rparr>)] 9 = Inr (False, None)
   \<and> set_last_seen 6 9 [(7, \<lparr>first_name = [], username = [], joined_at = 5, last_seen = 5,
                  is_banned = 1, ban_reason = Some ''spam''\<rparr>)]
       = Inr [(7, \<lparr>first_name = [], username = [], joined_at = 5, last_seen = 5,
                  is_banned = 1, ban_reason = Some ''spam''\<rparr>)]
   \<and> unban 9 [(7, \<lparr>first_name = [], username = [], joined_at = 5, last_seen = 5,
                  is_banned = 1, ban_reason = Some ''spam''\<rparr>)]
       = Inr [(7, \<lparr>first_name = [], username = [], joined_at = 5, last_seen = 5,
                  is_banned = 1, ban_reason = Some ''spam''\<rparr>)]"
proof -
  have r: "sqlite_int 9"
    by (simp add: sqlite_int_def)
  have m: "map_of [(7 :: int, \<lparr>first_name = [], username = [], joined_at = 5, last_seen = 5,
                  is_banned = 1, ban_reason = Some ''spam''\<rparr>)] 9 = None"
    by simp
  from unknown_id_sentinels [OF r m, of 6] show ?thesis
    using r m by simp
qed

text \<open>Without the bound on the id the statement fails: for \<open>2\<^sup>6\<^sup>3\<close>, which has
  no row, each of the three methods raises \<^verbatim>\<open>OverflowError\<close>.\<close>

theorem unknown_id_out_of_range_counterexample:
  "map_of ([] :: users_table) 9223372036854775808 = None
   \<and> DB_is_banned [] 9223372036854775808 = Inl OverflowError
   \<and> set_last_seen 6 9223372036854775808 [] = Inl OverflowError
   \<and> unban 9223372036854775808 [] = Inl OverflowError"
  by (simp add: DB_is_banned_def set_last_seen_def unban_def sqlite_int_def)

section \<open>The flood guard\<close>

text \<open>C10: after \<^verbatim>\<open>hit\<close> for an id at clock reading \<open>now\<close>, the window stored
  for the id is the previously stored timestamps \<open>t\<close> with \<open>now - t \<le> window\<close>,
  followed by \<open>now\<close>: it is not empty, every timestamp kept from before lies
  within the window, and the answer is whether the length of this list exceeds
  \<^verbatim>\<open>limit\<close>, so the current call is counted. The windows of other ids and the
  configuration are untouched.\<close>

theorem hit_window:
  "hit now uid f = (b, f') \<Longrightarrow>
     stored f' uid = filter (\<lambda>t. now - t \<le> window f) (stored f uid) @ [now]
     \<and> bucket f' uid = Some (stored f' uid)
     \<and> stored f' uid \<noteq> []
     \<and> (\<forall>t\<in>set (butlast (stored f' uid)). now - t \<le> window f)
     \<and> (0 \<le> window f \<longrightarrow> (\<forall>t\<in>set (stored f' uid). now - t \<le> window f))
     \<and> b = (int (length (stored f' uid)) > limit f)
     \<and> window f' = window f \<and> limit f' = limit f
     \<and> (\<forall>k. k \<noteq> uid \<longrightarrow> bucket f' k = bucket f k)"
  by (auto simp: hit_eq stored_def)

theorem hit_window_witness:
  "hit 20 7 \<lparr>window = 8, limit = 2, bucket = [7 \<mapsto> [5, 12, 19]]\<rparr>
     = (True, \<lparr>window = 8, limit = 2, bucket = [7 \<mapsto> [12, 19, 20]]\<rparr>)
   \<and> stored \<lparr>window = 8, limit = 2, bucket = [7 \<mapsto> [12, 19, 20]]\<rparr> 7 = [12, 19, 20]"
  using hit_window [of 20 7 "\<lparr>window = 8, limit = 2, bucket = [7 \<mapsto> [5, 12, 19]]\<rparr>" True
      "\<lparr>window = 8, limit = 2, bucket = [7 \<mapsto> [12, 19, 20]]\<rparr>"]
  by (simp add: hit_def stored_def)

text \<open>C3: with \<^verbatim>\<open>window = 8\<close> and \<^verbatim>\<open>limit = 7\<close>, for one id with no
  timestamp of the last 8 seconds stored: of 8 calls whose clock readings differ
  by at most 1 second, the first 7 answer \<open>False\<close> and the 8th answers \<open>True\<close>;
  every further call made within 8 seconds of all calls before it answers
  \<open>True\<close>; and a call made more than 8 seconds after all of them answers
  \<open>False\<close>.\<close>

theorem flood_window_8_limit_7:
  assumes cfg: "window f = 8" "limit f = 7"
    and len: "length ts8 = 8"
    and close: "\<forall>t\<in>set ts8. \<forall>t'\<in>set ts8. t' - t \<le> 1"
    and fresh: "\<forall>t\<in>set (stored f uid). hd ts8 - t > 8"
    and inside: "\<forall>j<length further. \<forall>t\<in>set (ts8 @ take j further). further ! j - t \<le> 8"
    and after: "\<forall>t\<in>set (ts8 @ further). late - t > 8"
  shows "fst (hits (ts8 @ further @ [late]) uid f)
           = replicate 7 False @ replicate (Suc (length further)) True @ [False]"
proof -
  from len obtain t1 rest where ts8: "ts8 = t1 # rest" and rest: "length rest = 7"
    by (cases ts8) auto
  let ?f1 = "f\<lparr>bucket := (bucket f)(uid \<mapsto> [t1])\<rparr>"
  have h1: "hit t1 uid f = (False, ?f1)"
    using hit_all_stale [of f uid t1] fresh cfg ts8 by simp
  have st1: "stored ?f1 uid = [t1]"
    by (simp add: stored_def)
  have win: "\<forall>j<length (rest @ further). \<forall>t\<in>set (stored ?f1 uid @ take j (rest @ further)).
      (rest @ further) ! j - t \<le> window ?f1"
  proof (intro allI impI ballI)
    fix j t
    assume j: "j < length (rest @ further)"
      and t: "t \<in> set (stored ?f1 uid @ take j (rest @ further))"
    show "(rest @ further) ! j - t \<le> window ?f1"
    proof (cases "j < length rest")
      case True
      then have "(rest @ further) ! j \<in> set ts8"
        by (simp add: ts8 nth_append)
      moreover from t True have "t \<in> set ts8"
        by (auto simp: st1 ts8 dest: in_set_takeD)
      ultimately have "(rest @ further) ! j - t \<le> 1"
        using close by blast
      then show ?thesis using cfg by simp
    next
      case False
      then have k: "j - length rest < length further"
        using j by simp
      from False have nth: "(rest @ further) ! j = further ! (j - length rest)"
        by (simp add: nth_append)
      from t False have "t \<in> set (ts8 @ take (j - length rest) further)"
        by (auto simp: st1 ts8)
      with inside k have "further ! (j - length rest) - t \<le> 8"
        by blast
      then show ?thesis using cfg nth by simp
    qed
  qed
  let ?f2 = "snd (hits (rest @ further) uid ?f1)"
  from hits_retained [OF win]
  have r: "fst (hits (rest @ further) uid ?f1) = replicate 6 False @ replicate (Suc (length further)) True"
    and st2: "stored ?f2 uid = ts8 @ further"
    and cfg2: "window ?f2 = 8" "limit ?f2 = 7"
    using flood_answers [of "length further"] by (simp_all add: st1 cfg rest ts8)
  have "\<forall>t\<in>set (stored ?f2 uid). late - t > window ?f2"
    using after st2 cfg2 by simp
  from hit_all_stale [OF this] have h3: "fst (hit late uid ?f2) = False"
    by (simp add: cfg2)
  have a: "hits (ts8 @ further @ [late]) uid f = hits (t1 # ((rest @ further) @ [late])) uid f"
    by (simp add: ts8)
  have b: "fst (hits (t1 # ((rest @ further) @ [late])) uid f)
      = fst (hit t1 uid f) # fst (hits ((rest @ further) @ [late]) uid (snd (hit t1 uid f)))"
    by (simp add: split_beta)
  have c: "fst (hits ((rest @ further) @ [late]) uid ?f1)
      = fst (hits (rest @ further) uid ?f1) @ fst (hits [late] uid ?f2)"
    by (simp only: hits_append fst_conv)
  have d: "fst (hits [late] uid ?f2) = [False]"
    by (simp add: split_beta h3)
  have "fst (hits (ts8 @ further @ [late]) uid f)
      = False # (replicate 6 False @ replicate (Suc (length further)) True) @ [False]"
    by (simp only: a b h1 fst_conv snd_conv c d r)
  then show ?thesis
    by (simp add: numeral_eq_Suc)
qed

theorem flood_window_8_limit_7_witness:
  "fst (hits ([100, 100, 100, 100, 101, 101, 101, 101] @ [102, 108] @ [117]) 42
       \<lparr>window = 8, limit = 7, bucket = [42 \<mapsto> [91]]\<rparr>)
     = [False, False, False, False, False, False, False, True, True, True, False]"
  using flood_window_8_limit_7 [of "\<lparr>window = 8, limit = 7, bucket = [42 \<mapsto> [91]]\<rparr>"
      "[100, 100, 100, 100, 101, 101, 101, 101]" 42 "[102, 108]" 117]
  by (simp add: stored_def nth_Cons' less_Suc_eq_0_disj numeral_eq_Suc)

section \<open>The order of checks in the guard\<close>

text \<open>C1: for an update with a user, \<^verbatim>\<open>guard\<close> first writes the row: the
  first two events are the commits of \<^verbatim>\<open>upsert_user\<close> and of
  \<^verbatim>\<open>set_last_seen\<close>, which both return, and \<open>tbl\<close> is the table every branch
  leaves. Then it reads the ban status from that table, which is the status the
  table had before. A banned user is rejected, with the ban notice and the stored
  reason sent when the update has a message, and \<^verbatim>\<open>FLOOD\<close> is left as it was;
  this holds for the operator as well, since the ban is tested first. A user who
  is not banned and is the operator passes with \<^verbatim>\<open>FLOOD\<close> untouched. Only a
  user who is neither banned nor the operator reaches \<^verbatim>\<open>FLOOD.hit\<close>, whose
  answer decides.\<close>

theorem guard_order:
  assumes u: "effective_user upd = Some u"
    and uid: "uid = sint (tg_id u)"
    and res: "guard OWNER_ID t1 t2 t3 upd w = (res, w')"
  shows "\<exists>tbl1 tbl banned reason pass.
      upsert_user t1 uid (Some (or_empty (Some (tg_first_name u))))
          (Some (or_empty (tg_username u))) (users w) = Inr tbl1
    \<and> set_last_seen t2 uid tbl1 = Inr tbl
    \<and> DB_is_banned tbl uid = Inr (banned, reason)
    \<and> DB_is_banned (users w) uid = Inr (banned, reason)
    \<and> res = Inr pass
    \<and> users w' = tbl \<and> broadcasts w' = broadcasts w
    \<and> (banned \<longrightarrow>
          \<not> pass \<and> FLOOD w' = FLOOD w
          \<and> outbox w' = outbox w @ [Commit_Users tbl1, Commit_Users tbl]
               @ (if effective_message upd = None then [] else [Reply_Text (banned_text reason)]))
    \<and> (\<not> banned \<and> is_admin OWNER_ID upd \<longrightarrow>
          pass \<and> FLOOD w' = FLOOD w
          \<and> outbox w' = outbox w @ [Commit_Users tbl1, Commit_Users tbl])
    \<and> (\<not> banned \<and> \<not> is_admin OWNER_ID upd \<longrightarrow>
          pass = (\<not> fst (hit t3 uid (FLOOD w)))
          \<and> FLOOD w' = snd (hit t3 uid (FLOOD w))
          \<and> outbox w' = outbox w @ [Commit_Users tbl1, Commit_Users tbl]
               @ (if pass \<or> effective_message upd = None then [] else [Reply_Text Flood_Detected]))"
proof -
  have r: "sqlite_int uid"
    unfolding uid by (rule sqlite_int_sint)
  from DB_is_banned_after_upsert [OF r, of t1 "Some (or_empty (Some (tg_first_name u)))"
      "Some (or_empty (tg_username u))" "users w" t2]
  obtain tbl1 tbl banned reason where
    a: "upsert_user t1 uid (Some (or_empty (Some (tg_first_name u))))
          (Some (or_empty (tg_username u))) (users w) = Inr tbl1"
    and b: "set_last_seen t2 uid tbl1 = Inr tbl"
    and c: "DB_is_banned tbl uid = Inr (banned, reason)"
    and d: "DB_is_banned (users w) uid = Inr (banned, reason)"
    by (metis surj_pair)
  let ?w2 = "commit_users tbl (commit_users tbl1 w)"
  have g: "guard OWNER_ID t1 t2 t3 upd w =
      (if banned then (Inr False, try_reply (banned_text reason) upd ?w2)
       else if is_admin OWNER_ID upd then (Inr True, ?w2)
       else if fst (hit t3 uid (FLOOD w))
         then (Inr False, try_reply Flood_Detected upd (?w2\<lparr>FLOOD := snd (hit t3 uid (FLOOD w))\<rparr>))
         else (Inr True, ?w2\<lparr>FLOOD := snd (hit t3 uid (FLOOD w))\<rparr>))"
    using a b c unfolding uid
    by (simp add: guard_def u Let_def split_beta commit_users_def)
  have w2: "users ?w2 = tbl" "broadcasts ?w2 = broadcasts w" "FLOOD ?w2 = FLOOD w"
    "outbox ?w2 = outbox w @ [Commit_Users tbl1, Commit_Users tbl]"
    by (simp_all add: commit_users_def)
  have t: "\<And>n v. users (try_reply n upd v) = users v" "\<And>n v. broadcasts (try_reply n upd v) = broadcasts v"
    "\<And>n v. FLOOD (try_reply n upd v) = FLOOD v"
    "\<And>n v. outbox (try_reply n upd v) = outbox v @ (if effective_message upd = None then [] else [Reply_Text n])"
    by (simp_all add: try_reply_def split: option.splits)
  consider (banned) "banned"
    | (admin) "\<not> banned" "is_admin OWNER_ID upd"
    | (over) "\<not> banned" "\<not> is_admin OWNER_ID upd" "fst (hit t3 uid (FLOOD w))"
    | (pass) "\<not> banned" "\<not> is_admin OWNER_ID upd" "\<not> fst (hit t3 uid (FLOOD w))"
    by blast
  then show ?thesis
  proof cases
    case banned
    with g res have "res = Inr False" "w' = try_reply (banned_text reason) upd ?w2"
      by simp_all
    with banned a b c d show ?thesis
      by (intro exI [of _ tbl1] exI [of _ tbl] exI [of _ banned] exI [of _ reason] exI [of _ False])
        (simp add: w2 t)
  next
    case admin
    with g res have "res = Inr True" "w' = ?w2"
      by simp_all
    with admin a b c d show ?thesis
      by (intro exI [of _ tbl1] exI [of _ tbl] exI [of _ banned] exI [of _ reason] exI [of _ True])
        (simp add: w2)
  next
    case over
    with g res have "res = Inr False"
      "w' = try_reply Flood_Detected upd (?w2\<lparr>FLOOD := snd (hit t3 uid (FLOOD w))\<rparr>)"
      by simp_all
    with over a b c d show ?thesis
      by (intro exI [of _ tbl1] exI [of _ tbl] exI [of _ banned] exI [of _ reason] exI [of _ False])
        (simp add: w2 t)
  next
    case pass
    with g res have "res = Inr True" "w' = ?w2\<lparr>FLOOD := snd (hit t3 uid (FLOOD w))\<rparr>"
      by simp_all
    with pass a b c d show ?thesis
      by (intro exI [of _ tbl1] exI [of _ tbl] exI [of _ banned] exI [of _ reason] exI [of _ True])
        (simp add: w2)
  qed
qed

theorem guard_order_witness:
  "sint (tg_id \<lparr>tg_id = 1, tg_first_name = ''Op'', tg_username = None\<rparr>) = 1
   \<and> is_admin 1 \<lparr>effective_user = Some \<lparr>tg_id = 1, tg_first_name = ''Op'', tg_username = None\<rparr>,
            effective_message = Some \<lparr>message_id = 3\<rparr>\<rparr>
   \<and> fst (guard 1 10 11 12
          \<lparr>effective_user = Some \<lparr>tg_id = 1, tg_first_name = ''Op'', tg_username = None\<rparr>,
            effective_message = Some \<lparr>message_id = 3\<rparr>\<rparr>
          \<lparr>users = [(1, \<lparr>first_name = [], username = [], joined_at = 5, last_seen = 5,
                          is_banned = 1, ban_reason = Some ''spam''\<rparr>)],
           broadcasts = [],
           FLOOD = \<lparr>window = 8, limit = 7, bucket = Map.empty\<rparr>, outbox = []\<rparr>) = Inr False
   \<and> FLOOD (snd (guard 1 10 11 12
          \<lparr>effective_user = Some \<lparr>tg_id = 1, tg_first_name = ''Op'', tg_username = None\<rparr>,
            effective_message = Some \<lparr>message_id = 3\<rparr>\<rparr>
          \<lparr>users = [(1, \<lparr>first_name = [], username = [], joined_at = 5, last_seen = 5,
                          is_banned = 1, ban_reason = Some ''spam''\<rparr>)],
           broadcasts = [],
           FLOOD = \<lparr>window = 8, limit = 7, bucket = Map.empty\<rparr>, outbox = []\<rparr>))
        = \<lparr>window = 8, limit = 7, bucket = Map.empty\<rparr>
   \<and> outbox (snd (guard 1 10 11 12
          \<lparr>effective_user = Some \<lparr>tg_id = 1, tg_first_name = ''Op'', tg_username = None\<rparr>,
            effective_message = Some \<lparr>message_id = 3\<rparr>\<rparr>
          \<lparr>users = [(1, \<lparr>first_name = [], username = [], joined_at = 5, last_seen = 5,
                          is_banned = 1, ban_reason = Some ''spam''\<rparr>)],
           broadcasts = [],
           FLOOD = \<lparr>window = 8, limit = 7, bucket = Map.empty\<rparr>, outbox = []\<rparr>))
        = [Commit_Users [(1, \<lparr>first_name = ''Op'', username = [], joined_at = 5, last_seen = 10,
                is_banned = 1, ban_reason = Some ''spam''\<rparr>)],
           Commit_Users [(1, \<lparr>first_name = ''Op'', username = [], joined_at = 5, last_seen = 11,
                is_banned = 1, ban_reason = Some ''spam''\<rparr>)],
           Reply_Text (You_Are_Banned (Some ''spam''))]
   \<and> users (snd (guard 1 10 11 12
          \<lparr>effective_user = Some \<lparr>tg_id = 1, tg_first_name = ''Op'', tg_username = None\<rparr>,
            effective_message = Some \<lparr>message_id = 3\<rparr>\<rparr>
          \<lparr>users = [(1, \<lparr>first_name = [], username = [], joined_at = 5, last_seen = 5,
                          is_banned = 1, ban_reason = Some ''spam''\<rparr>)],
           broadcasts = [],
           FLOOD = \<lparr>window = 8, limit = 7, bucket = Map.empty\<rparr>, outbox = []\<rparr>))
        = [(1, \<lparr>first_name = ''Op'', username = [], joined_at = 5, last_seen = 11,
                is_banned = 1, ban_reason = Some ''spam''\<rparr>)]
   \<and> fst (guard 1 10 11 12
          \<lparr>effective_user = Some \<lparr>tg_id = 1, tg_first_name = ''Op'', tg_username = None\<rparr>,
            effective_message = None\<rparr>
          \<lparr>users = [(1, \<lparr>first_name = [], username = [], joined_at = 5, last_seen = 5,
                          is_banned = 1, ban_reason = Some ''spam''\<rparr>)],
           broadcasts = [],
           FLOOD = \<lparr>window = 8, limit = 7, bucket = Map.empty\<rparr>, outbox = []\<rparr>) = Inr False
   \<and> outbox (snd (guard 1 10 11 12
          \<lparr>effective_user = Some \<lparr>tg_id = 1, tg_first_name = ''Op'', tg_username = None\<rparr>,
            effective_message = None\<rparr>
          \<lparr>users = [(1, \<lparr>first_name = [], username = [], joined_at = 5, last_seen = 5,
                          is_banned = 1, ban_reason = Some ''spam''\<rparr>)],
           broadcasts = [],
           FLOOD = \<lparr>window = 8, limit = 7, bucket = Map.empty\<rparr>, outbox = []\<rparr>))
        = [Commit_Users [(1, \<lparr>first_name = ''Op'', username = [], joined_at = 5, last_seen = 10,
                is_banned = 1, ban_reason = Some ''spam''\<rparr>)],
           Commit_Users [(1, \<lparr>first_name = ''Op'', username = [], joined_at = 5, last_seen = 11,
                is_banned = 1, ban_reason = Some ''spam''\<rparr>)]]
   \<and> \<not> is_admin 1 \<lparr>effective_user = Some \<lparr>tg_id = 42, tg_first_name = ''Ann'', tg_username = Some ''ann''\<rparr>,
            effective_message = Some \<lparr>message_id = 4\<rparr>\<rparr>
   \<and> fst (guard 1 10 11 12
          \<lparr>effective_user = Some \<lparr>tg_id = 42, tg_first_name = ''Ann'', tg_username = Some ''ann''\<rparr>,
            effective_message = Some \<lparr>message_id = 4\<rparr>\<rparr>
          \<lparr>users = [], broadcasts = [],
           FLOOD = \<lparr>window = 8, limit = 7, bucket = Map.empty\<rparr>, outbox = []\<rparr>) = Inr True
   \<and> FLOOD (snd (guard 1 10 11 12
          \<lparr>effective_user = Some \<lparr>tg_id = 42, tg_first_name = ''Ann'', tg_username = Some ''ann''\<rparr>,
            effective_message = Some \<lparr>message_id = 4\<rparr>\<rparr>
          \<lparr>users = [], broadcasts = [],
           FLOOD = \<lparr>window = 8, limit = 7, bucket = Map.empty\<rparr>, outbox = []\<rparr>))
        = \<lparr>window = 8, limit = 7, bucket = [42 \<mapsto> [12]]\<rparr>
   \<and> fst (guard 1 10 11 12
          \<lparr>effective_user = Some \<lparr>tg_id = 1, tg_first_name = ''Op'', tg_username = None\<rparr>,
            effective_message = Some \<lparr>message_id = 3\<rparr>\<rparr>
          \<lparr>users = [], broadcasts = [],
           FLOOD = \<lparr>window = 8, limit = 7, bucket = Map.empty\<rparr>, outbox = []\<rparr>) = Inr True
   \<and> FLOOD (snd (guard 1 10 11 12
          \<lparr>effective_user = Some \<lparr>tg_id = 1, tg_first_name = ''Op'', tg_username = None\<rparr>,
            effective_message = Some \<lparr>message_id = 3\<rparr>\<rparr>
          \<lparr>users = [], broadcasts = [],
           FLOOD = \<lparr>window = 8, limit = 7, bucket = Map.empty\<rparr>, outbox = []\<rparr>))
        = \<lparr>window = 8, limit = 7, bucket = Map.empty\<rparr>"
proof -
  let ?op = "\<lparr>tg_id = 1, tg_first_name = ''Op'', tg_username = None\<rparr>"
  let ?ann = "\<lparr>tg_id = 42, tg_first_name = ''Ann'', tg_username = Some ''ann''\<rparr>"
  let ?f = "\<lparr>window = 8, limit = 7, bucket = Map.empty\<rparr>"
  let ?w0 = "\<lparr>users = [], broadcasts = [], FLOOD = ?f, outbox = []\<rparr>"
  let ?w1 = "\<lparr>users = [(1, \<lparr>first_name = [], username = [], joined_at = 5, last_seen = 5,
                          is_banned = 1, ban_reason = Some ''spam''\<rparr>)],
              broadcasts = [], FLOOD = ?f, outbox = []\<rparr>"
  let ?U = "\<lparr>effective_user = Some ?op, effective_message = Some \<lparr>message_id = 3\<rparr>\<rparr>"
  let ?Q = "\<lparr>effective_user = Some ?op, effective_message = None\<rparr>"
  let ?A = "\<lparr>effective_user = Some ?ann, effective_message = Some \<lparr>message_id = 4\<rparr>\<rparr>"
  have s1: "sint (tg_id ?op) = 1" and s42: "sint (tg_id ?ann) = 42"
    by simp_all
  have r: "sqlite_int 1" "sqlite_int 42"
    by (simp_all add: sqlite_int_def)
  have a: "effective_user ?U = Some ?op" and q: "effective_user ?Q = Some ?op"
    and b: "effective_user ?A = Some ?ann"
    by simp_all
  note banned_op = guard_order [where w = "?w1" and ?t1.0 = 10 and ?t2.0 = 11 and ?t3.0 = 12 and OWNER_ID = 1,
      OF a s1 [symmetric] surjective_pairing]
  note banned_quiet = guard_order [where w = "?w1" and ?t1.0 = 10 and ?t2.0 = 11 and ?t3.0 = 12 and OWNER_ID = 1,
      OF q s1 [symmetric] surjective_pairing]
  note fresh_ann = guard_order [where w = "?w0" and ?t1.0 = 10 and ?t2.0 = 11 and ?t3.0 = 12 and OWNER_ID = 1,
      OF b s42 [symmetric] surjective_pairing]
  note fresh_op = guard_order [where w = "?w0" and ?t1.0 = 10 and ?t2.0 = 11 and ?t3.0 = 12 and OWNER_ID = 1,
      OF a s1 [symmetric] surjective_pairing]
  note defs = is_admin_def DB_is_banned_def upsert_user_def set_last_seen_def
    insert_or_update_def update_where_def or_empty_def banned_text_def esc_md_def md_special_def
    hit_def
  have A: "fst (guard 1 10 11 12 ?U ?w1) = Inr False
      \<and> FLOOD (snd (guard 1 10 11 12 ?U ?w1)) = ?f
      \<and> outbox (snd (guard 1 10 11 12 ?U ?w1))
          = [Commit_Users [(1, \<lparr>first_name = ''Op'', username = [], joined_at = 5, last_seen = 10,
                is_banned = 1, ban_reason = Some ''spam''\<rparr>)],
             Commit_Users [(1, \<lparr>first_name = ''Op'', username = [], joined_at = 5, last_seen = 11,
                is_banned = 1, ban_reason = Some ''spam''\<rparr>)],
             Reply_Text (You_Are_Banned (Some ''spam''))]
      \<and> users (snd (guard 1 10 11 12 ?U ?w1))
          = [(1, \<lparr>first_name = ''Op'', username = [], joined_at = 5, last_seen = 11,
                is_banned = 1, ban_reason = Some ''spam''\<rparr>)]"
    using banned_op r by (auto simp: defs)
  have B: "fst (guard 1 10 11 12 ?Q ?w1) = Inr False
      \<and> outbox (snd (guard 1 10 11 12 ?Q ?w1))
          = [Commit_Users [(1, \<lparr>first_name = ''Op'', username = [], joined_at = 5, last_seen = 10,
                is_banned = 1, ban_reason = Some ''spam''\<rparr>)],
             Commit_Users [(1, \<lparr>first_name = ''Op'', username = [], joined_at = 5, last_seen = 11,
                is_banned = 1, ban_reason = Some ''spam''\<rparr>)]]"
    using banned_quiet r by (auto simp: defs)
  have C: "fst (guard 1 10 11 12 ?A ?w0) = Inr True
      \<and> FLOOD (snd (guard 1 10 11 12 ?A ?w0)) = \<lparr>window = 8, limit = 7, bucket = [42 \<mapsto> [12]]\<rparr>"
    using fresh_ann r by (auto simp: defs)
  have D: "fst (guard 1 10 11 12 ?U ?w0) = Inr True
      \<and> FLOOD (snd (guard 1 10 11 12 ?U ?w0)) = ?f"
    using fresh_op r by (auto simp: defs)
  show ?thesis
    using A B C D by (simp add: is_admin_def)
qed

section \<open>The broadcast\<close>

text \<open>C2, amended: a broadcast by the operator that passes the guard, with a
  message that is not blank, over the snapshot \<open>user_ids\<close> of \<open>N \<ge> 1\<close> active ids,
  commits its row with \<^verbatim>\<open>sent_ok = sent_fail = 0\<close> first, before the start
  notice and before any delivery. If the start notice goes out (the update has a
  message and the reply returns), the events that follow are the deliveries, one
  per id of the snapshot in the order of the snapshot whatever each delivery's
  fate, with progress edits and no commit to \<^verbatim>\<open>broadcasts\<close> among them, then
  one commit of the row with \<open>N - K\<close> and \<open>K\<close>, where \<open>K\<close> is the number of
  deliveries that failed, then the final edit; \<open>K \<le> N\<close>, and the two counts add up
  to \<open>N\<close>. If the start notice does not go out, the handler raises: the row stays
  at \<open>0/0\<close>, it is never written again, and nothing is delivered.\<close>

theorem broadcast_accounting:
  assumes g: "guard OWNER_ID t1 t2 t3 upd w = (Inr True, w1)"
    and adm: "is_admin OWNER_ID upd"
    and msg: "msg = strip (str_join '' '' args)" and ne: "msg \<noteq> []"
    and ids: "user_ids = user_ids_active (users w1)" and some: "user_ids \<noteq> []"
    and bid: "bid = lastrowid (broadcasts w1)"
    and row: "row = \<lparr>admin_id = OWNER_ID, message = msg, created_at = t4, sent_ok = 0, sent_fail = 0\<rparr>"
    and started: "started = Broadcast_Started (int (length user_ids)) bid"
    and K: "K = length (filter (\<lambda>(i, uid). \<not> send_returns e i uid msg) (enumerate 1 user_ids))"
    and run: "broadcast_cmd e OWNER_ID t1 t2 t3 t4 upd args w = (r, w')"
  shows "(effective_message upd \<noteq> None \<and> reply_returns e started \<longrightarrow>
      (\<exists>mid. outbox w' = outbox w1
            @ [Commit_Broadcasts (broadcasts w1 @ [(bid, row)]), Reply_Text started]
            @ mid
            @ [Commit_Broadcasts (broadcasts w1 @
                 [(bid, row\<lparr>sent_ok := int (length user_ids) - int K, sent_fail := int K\<rparr>)]),
               Edit_Text (Broadcast_Done (int (length user_ids)) (int (length user_ids) - int K)
                 (int K) bid)]
         \<and> deliveries mid = map (\<lambda>(i, uid). (uid, msg, send_returns e i uid msg)) (enumerate 1 user_ids)
         \<and> map fst (deliveries mid) = user_ids
         \<and> broadcast_commits mid = [])
      \<and> broadcasts w' = broadcasts w1 @
           [(bid, row\<lparr>sent_ok := int (length user_ids) - int K, sent_fail := int K\<rparr>)]
      \<and> map_option (\<lambda>row. sent_ok row + sent_fail row) (map_of (broadcasts w') bid)
          = Some (int (length user_ids))
      \<and> K \<le> length user_ids)
    \<and> (\<not> (effective_message upd \<noteq> None \<and> reply_returns e started) \<longrightarrow>
      r = Raised (if effective_message upd = None then AttributeError else TelegramError)
      \<and> broadcasts w' = broadcasts w1 @ [(bid, row)]
      \<and> outbox w' = outbox w1 @ [Commit_Broadcasts (broadcasts w1 @ [(bid, row)])]
           @ (if effective_message upd = None then [] else [Reply_Text started]))
    \<and> users w' = users w1 \<and> FLOOD w' = FLOOD w1"
proof -
  from adm obtain u where u: "effective_user upd = Some u" and owner: "sint (tg_id u) = OWNER_ID"
    by (auto simp: is_admin_def split: option.splits)
  let ?tbl = "broadcasts w1 @ [(bid, row)]"
  have log: "log_broadcast t4 (sint (tg_id u)) (strip (str_join '' '' args)) (broadcasts w1)
      = Inr (bid, ?tbl)"
    using sqlite_int_sint [of "tg_id u"]
    by (simp add: log_broadcast_def Let_def bid row msg owner)
  have fresh: "map_of (broadcasts w1) bid = None"
    unfolding bid by (rule lastrowid_fresh)
  have cmd: "broadcast_cmd e OWNER_ID t1 t2 t3 t4 upd args w = broadcast_run e t4 upd args w1"
    by (simp add: broadcast_cmd_def g adm)
  have ne': "strip (str_join '' '' args) \<noteq> []" and some': "user_ids_active (users w1) \<noteq> []"
    using ne some by (simp_all add: msg ids)
  show ?thesis
  proof (cases "effective_message upd \<noteq> None \<and> reply_returns e started")
    case False
    then have no: "\<not> (effective_message upd \<noteq> None
        \<and> reply_returns e (Broadcast_Started (int (length (user_ids_active (users w1)))) bid))"
      by (simp add: started ids)
    from broadcast_start_notice_raises [OF u ne' some' log no] run cmd
    have "r = Raised (if effective_message upd = None then AttributeError else TelegramError)"
      and "w' = w1\<lparr>broadcasts := ?tbl,
         outbox := outbox w1 @ [Commit_Broadcasts ?tbl]
           @ (if effective_message upd = None then [] else [Reply_Text started])\<rparr>"
      by (auto simp: started ids)
    with False show ?thesis
      by auto
  next
    case True
    then have m: "effective_message upd \<noteq> None"
      and st: "reply_returns e (Broadcast_Started (int (length (user_ids_active (users w1)))) bid)"
      by (simp_all add: started ids)
    let ?out0 = "outbox w1 @ [Commit_Broadcasts ?tbl, Reply_Text started]"
    obtain ok fail out where
      loop: "broadcast_loop e msg (int (length user_ids)) (enumerate 1 user_ids) (0, 0, ?out0)
               = (ok, fail, out)"
      by (cases "broadcast_loop e msg (int (length user_ids)) (enumerate 1 user_ids) (0, 0, ?out0)") auto
    from broadcast_loop_result [OF loop] obtain mid where
      ok: "ok = int (length (filter (\<lambda>(i, uid). send_returns e i uid msg) (enumerate 1 user_ids)))"
      and fail: "fail = int K"
      and out: "out = ?out0 @ mid"
      and del: "deliveries mid = map (\<lambda>(i, uid). (uid, msg, send_returns e i uid msg)) (enumerate 1 user_ids)"
      and com: "broadcast_commits mid = []"
      by (auto simp: K)
    have ok': "ok = int (length user_ids) - int K"
    proof -
      have "(\<lambda>x. \<not> (case x of (i, uid) \<Rightarrow> send_returns e i uid msg))
          = (\<lambda>(i, uid). \<not> send_returns e i uid msg)"
        by (simp add: fun_eq_iff)
      with count_split [of "\<lambda>(i, uid). send_returns e i uid msg" "enumerate 1 user_ids"]
      show ?thesis unfolding ok K by simp
    qed
    have KN: "K \<le> length user_ids"
      unfolding K using length_filter_le [of _ "enumerate 1 user_ids"] by simp
    let ?fin = "broadcasts w1 @
        [(bid, row\<lparr>sent_ok := int (length user_ids) - int K, sent_fail := int K\<rparr>)]"
    have written: "update_broadcast_result bid ok fail ?tbl = ?fin"
      by (simp add: update_broadcast_result_def update_where_new_row [OF fresh] ok' fail)
    have loop': "broadcast_loop e (strip (str_join '' '' args))
          (int (length (user_ids_active (users w1)))) (enumerate 1 (user_ids_active (users w1)))
          (0, 0, outbox w1 @ [Commit_Broadcasts ?tbl,
             Reply_Text (Broadcast_Started (int (length (user_ids_active (users w1)))) bid)])
        = (ok, fail, out)"
      using loop by (simp add: msg ids started)
    from broadcast_run_completes [OF u ne' some' log m st loop'] run cmd
    have w': "w' = w1\<lparr>broadcasts := ?fin,
         outbox := out @ [Commit_Broadcasts ?fin,
           Edit_Text (Broadcast_Done (int (length user_ids)) ok fail bid)]\<rparr>"
      by (simp add: written ids)
    have order: "map fst (deliveries mid) = user_ids"
      by (simp add: del comp_def split_beta)
    have total: "map_option (\<lambda>row. sent_ok row + sent_fail row) (map_of ?fin bid)
        = Some (int (length user_ids))"
      using fresh by (simp add: map_add_def row)
    have shape: "outbox w' = outbox w1
            @ [Commit_Broadcasts ?tbl, Reply_Text started]
            @ mid
            @ [Commit_Broadcasts ?fin,
               Edit_Text (Broadcast_Done (int (length user_ids)) (int (length user_ids) - int K)
                 (int K) bid)]"
      by (simp add: w' out ok' fail)
    from True shape del order com total KN show ?thesis
      by (auto simp: w')
  qed
qed

theorem broadcast_accounting_witness:
  "user_ids_active
      [(2, \<lparr>first_name = ''Bo'', username = [], joined_at = 1, last_seen = 1, is_banned = 0, ban_reason = None\<rparr>),
            (3, \<lparr>first_name = ''Cy'', username = [], joined_at = 2, last_seen = 2, is_banned = 0, ban_reason = None\<rparr>),
            (4, \<lparr>first_name = [], username = [], joined_at = 3, last_seen = 3, is_banned = 1, ban_reason = Some ''spam''\<rparr>),
            (1, \<lparr>first_name = ''Op'', username = [], joined_at = 10, last_seen = 11, is_banned = 0, ban_reason = None\<rparr>)]
     = [1, 2, 3]
   \<and> broadcasts (snd (broadcast_cmd
        \<lparr>send_returns = (\<lambda>i uid msg. uid \<noteq> 3), reply_returns = (\<lambda>n. True), edit_due = (\<lambda>i. False)\<rparr>
        1 10 11 12 13
        \<lparr>effective_user = Some \<lparr>tg_id = 1, tg_first_name = ''Op'', tg_username = None\<rparr>,
         effective_message = Some \<lparr>message_id = 3\<rparr>\<rparr>
        [''hi'', ''all'']
        \<lparr>users =
           [(2, \<lparr>first_name = ''Bo'', username = [], joined_at = 1, last_seen = 1, is_banned = 0, ban_reason = None\<rparr>),
            (3, \<lparr>first_name = ''Cy'', username = [], joined_at = 2, last_seen = 2, is_banned = 0, ban_reason = None\<rparr>),
            (4, \<lparr>first_name = [], username = [], joined_at = 3, last_seen = 3, is_banned = 1, ban_reason = Some ''spam''\<rparr>)],
         broadcasts = [],
         FLOOD = \<lparr>window = 8, limit = 7, bucket = Map.empty\<rparr>, outbox = []\<rparr>))
     = [(1, \<lparr>admin_id = 1, message = ''hi all'', created_at = 13, sent_ok = 2, sent_fail = 1\<rparr>)]
   \<and> deliveries (outbox (snd (broadcast_cmd
        \<lparr>send_returns = (\<lambda>i uid msg. uid \<noteq> 3), reply_returns = (\<lambda>n. True), edit_due = (\<lambda>i. False)\<rparr>
        1 10 11 12 13
        \<lparr>effective_user = Some \<lparr>tg_id = 1, tg_first_name = ''Op'', tg_username = None\<rparr>,
         effective_message = Some \<lparr>message_id = 3\<rparr>\<rparr>
        [''hi'', ''all'']
        \<lparr>users =
           [(2, \<lparr>first_name = ''Bo'', username = [], joined_at = 1, last_seen = 1, is_banned = 0, ban_reason = None\<rparr>),
            (3, \<lparr>first_name = ''Cy'', username = [], joined_at = 2, last_seen = 2, is_banned = 0, ban_reason = None\<rparr>),
            (4, \<lparr>first_name = [], username = [], joined_at = 3, last_seen = 3, is_banned = 1, ban_reason = Some ''spam''\<rparr>)],
         broadcasts = [],
         FLOOD = \<lparr>window = 8, limit = 7, bucket = Map.empty\<rparr>, outbox = []\<rparr>)))
     = [(1, ''hi all'', True), (2, ''hi all'', True), (3, ''hi all'', False)]
   \<and> broadcast_commits (outbox (snd (broadcast_cmd
        \<lparr>send_returns = (\<lambda>i uid msg. uid \<noteq> 3), reply_returns = (\<lambda>n. True), edit_due = (\<lambda>i. False)\<rparr>
        1 10 11 12 13
        \<lparr>effective_user = Some \<lparr>tg_id = 1, tg_first_name = ''Op'', tg_username = None\<rparr>,
         effective_message = Some \<lparr>message_id = 3\<rparr>\<rparr>
        [''hi'', ''all'']
        \<lparr>users =
           [(2, \<lparr>first_name = ''Bo'', username = [], joined_at = 1, last_seen = 1, is_banned = 0, ban_reason = None\<rparr>),
            (3, \<lparr>first_name = ''Cy'', username = [], joined_at = 2, last_seen = 2, is_banned = 0, ban_reason = None\<rparr>),
            (4, \<lparr>first_name = [], username = [], joined_at = 3, last_seen = 3, is_banned = 1, ban_reason = Some ''spam''\<rparr>)],
         broadcasts = [],
         FLOOD = \<lparr>window = 8, limit = 7, bucket = Map.empty\<rparr>, outbox = []\<rparr>)))
     = [[(1, \<lparr>admin_id = 1, message = ''hi all'', created_at = 13, sent_ok = 0, sent_fail = 0\<rparr>)],
        [(1, \<lparr>admin_id = 1, message = ''hi all'', created_at = 13, sent_ok = 2, sent_fail = 1\<rparr>)]]
   \<and> broadcasts (snd (broadcast_cmd
        \<lparr>send_returns = (\<lambda>i uid msg. True), reply_returns = (\<lambda>n. False), edit_due = (\<lambda>i. False)\<rparr>
        1 10 11 12 13
        \<lparr>effective_user = Some \<lparr>tg_id = 1, tg_first_name = ''Op'', tg_username = None\<rparr>,
         effective_message = Some \<lparr>message_id = 3\<rparr>\<rparr>
        [''hi'', ''all'']
        \<lparr>users =
           [(2, \<lparr>first_name = ''Bo'', username = [], joined_at = 1, last_seen = 1, is_banned = 0, ban_reason = None\<rparr>),
            (3, \<lparr>first_name = ''Cy'', username = [], joined_at = 2, last_seen = 2, is_banned = 0, ban_reason = None\<rparr>),
            (4, \<lparr>first_name = [], username = [], joined_at = 3, last_seen = 3, is_banned = 1, ban_reason = Some ''spam''\<rparr>)],
         broadcasts = [],
         FLOOD = \<lparr>window = 8, limit = 7, bucket = Map.empty\<rparr>, outbox = []\<rparr>))
     = [(1, \<lparr>admin_id = 1, message = ''hi all'', created_at = 13, sent_ok = 0, sent_fail = 0\<rparr>)]
   \<and> deliveries (outbox (snd (broadcast_cmd
        \<lparr>send_returns = (\<lambda>i uid msg. True), reply_returns = (\<lambda>n. False), edit_due = (\<lambda>i. False)\<rparr>
        1 10 11 12 13
        \<lparr>effective_user = Some \<lparr>tg_id = 1, tg_first_name = ''Op'', tg_username = None\<rparr>,
         effective_message = Some \<lparr>message_id = 3\<rparr>\<rparr>
        [''hi'', ''all'']
        \<lparr>users =
           [(2, \<lparr>first_name = ''Bo'', username = [], joined_at = 1, last_seen = 1, is_banned = 0, ban_reason = None\<rparr>),
            (3, \<lparr>first_name = ''Cy'', username = [], joined_at = 2, last_seen = 2, is_banned = 0, ban_reason = None\<rparr>),
            (4, \<lparr>first_name = [], username = [], joined_at = 3, last_seen = 3, is_banned = 1, ban_reason = Some ''spam''\<rparr>)],
         broadcasts = [],
         FLOOD = \<lparr>window = 8, limit = 7, bucket = Map.empty\<rparr>, outbox = []\<rparr>))) = []"
proof -
  let ?e = "\<lparr>send_returns = (\<lambda>i uid msg. uid \<noteq> (3::int)), reply_returns = (\<lambda>n. True),
             edit_due = (\<lambda>i. False)\<rparr>"
  let ?e2 = "\<lparr>send_returns = (\<lambda>i (uid::int) msg. True), reply_returns = (\<lambda>n. False),
             edit_due = (\<lambda>i. False)\<rparr>"
  let ?upd = "\<lparr>effective_user = Some \<lparr>tg_id = 1, tg_first_name = ''Op'', tg_username = None\<rparr>,
         effective_message = Some \<lparr>message_id = 3\<rparr>\<rparr>"
  let ?old =
    "[(2, \<lparr>first_name = ''Bo'', username = [], joined_at = 1, last_seen = 1, is_banned = 0, ban_reason = None\<rparr>),
            (3, \<lparr>first_name = ''Cy'', username = [], joined_at = 2, last_seen = 2, is_banned = 0, ban_reason = None\<rparr>),
            (4, \<lparr>first_name = [], username = [], joined_at = 3, last_seen = 3, is_banned = 1, ban_reason = Some ''spam''\<rparr>)]"
  let ?mid =
    "[(2, \<lparr>first_name = ''Bo'', username = [], joined_at = 1, last_seen = 1, is_banned = 0, ban_reason = None\<rparr>),
            (3, \<lparr>first_name = ''Cy'', username = [], joined_at = 2, last_seen = 2, is_banned = 0, ban_reason = None\<rparr>),
            (4, \<lparr>first_name = [], username = [], joined_at = 3, last_seen = 3, is_banned = 1, ban_reason = Some ''spam''\<rparr>),
            (1, \<lparr>first_name = ''Op'', username = [], joined_at = 10, last_seen = 10, is_banned = 0, ban_reason = None\<rparr>)]"
  let ?new =
    "[(2, \<lparr>first_name = ''Bo'', username = [], joined_at = 1, last_seen = 1, is_banned = 0, ban_reason = None\<rparr>),
            (3, \<lparr>first_name = ''Cy'', username = [], joined_at = 2, last_seen = 2, is_banned = 0, ban_reason = None\<rparr>),
            (4, \<lparr>first_name = [], username = [], joined_at = 3, last_seen = 3, is_banned = 1, ban_reason = Some ''spam''\<rparr>),
            (1, \<lparr>first_name = ''Op'', username = [], joined_at = 10, last_seen = 11, is_banned = 0, ban_reason = None\<rparr>)]"
  let ?f = "\<lparr>window = 8, limit = 7, bucket = Map.empty\<rparr>"
  let ?w = "\<lparr>users = ?old, broadcasts = [], FLOOD = ?f, outbox = []\<rparr>"
  let ?w1 = "\<lparr>users = ?new, broadcasts = [], FLOOD = ?f,
              outbox = [Commit_Users ?mid, Commit_Users ?new]\<rparr>"
  have r: "sqlite_int 1"
    by (simp add: sqlite_int_def)
  have g: "guard 1 10 11 12 ?upd ?w = (Inr True, ?w1)"
    using r
    by (simp add: guard_def DB_is_banned_def upsert_user_def set_last_seen_def insert_or_update_def
        update_where_def or_empty_def is_admin_def commit_users_def)
  have adm: "is_admin 1 ?upd"
    by (simp add: is_admin_def)
  have msg: "''hi all'' = strip (str_join '' '' [''hi'', ''all''])"
    by (simp add: strip_def py_isspace_def)
  have ids: "[1, 2, 3] = user_ids_active (users ?w1)"
    by (simp add: user_ids_active_def)
  have bid: "1 = lastrowid (broadcasts ?w1)"
    by (simp add: lastrowid_def)
  have K: "1 = length (filter (\<lambda>(i, uid). \<not> send_returns ?e i uid ''hi all'') (enumerate 1 [1, 2, 3]))"
    by simp
  have K2: "0 = length (filter (\<lambda>(i, uid). \<not> send_returns ?e2 i uid ''hi all'') (enumerate 1 [1, 2, 3]))"
    by simp
  note a = broadcast_accounting [OF g adm msg _ ids _ bid refl refl K surjective_pairing, of 13]
  note b = broadcast_accounting [OF g adm msg _ ids _ bid refl refl K2 surjective_pairing, of 13]
  have A: "broadcasts (snd (broadcast_cmd ?e 1 10 11 12 13 ?upd [''hi'', ''all''] ?w))
        = [(1, \<lparr>admin_id = 1, message = ''hi all'', created_at = 13, sent_ok = 2, sent_fail = 1\<rparr>)]
      \<and> deliveries (outbox (snd (broadcast_cmd ?e 1 10 11 12 13 ?upd [''hi'', ''all''] ?w)))
        = [(1, ''hi all'', True), (2, ''hi all'', True), (3, ''hi all'', False)]
      \<and> broadcast_commits (outbox (snd (broadcast_cmd ?e 1 10 11 12 13 ?upd [''hi'', ''all''] ?w)))
        = [[(1, \<lparr>admin_id = 1, message = ''hi all'', created_at = 13, sent_ok = 0, sent_fail = 0\<rparr>)],
           [(1, \<lparr>admin_id = 1, message = ''hi all'', created_at = 13, sent_ok = 2, sent_fail = 1\<rparr>)]]"
    using a
    by (auto simp: deliveries_append deliveries_simps broadcast_commits_append broadcast_commits_simps)
  have B: "broadcasts (snd (broadcast_cmd ?e2 1 10 11 12 13 ?upd [''hi'', ''all''] ?w))
        = [(1, \<lparr>admin_id = 1, message = ''hi all'', created_at = 13, sent_ok = 0, sent_fail = 0\<rparr>)]
      \<and> deliveries (outbox (snd (broadcast_cmd ?e2 1 10 11 12 13 ?upd [''hi'', ''all''] ?w))) = []"
    using b
    by (auto simp: deliveries_append deliveries_simps)
  show ?thesis
    using A B ids [symmetric] by simp
qed

text \<open>As first stated, for every broadcast, the claim fails: when the start
  notice raises, a snapshot of three ids gets no delivery and the row is left at
  \<open>0/0\<close>, although no delivery would have failed.\<close>

theorem broadcast_start_notice_counterexample:
  "user_ids_active
      [(2, \<lparr>first_name = ''Bo'', username = [], joined_at = 1, last_seen = 1, is_banned = 0, ban_reason = None\<rparr>),
            (3, \<lparr>first_name = ''Cy'', username = [], joined_at = 2, last_seen = 2, is_banned = 0, ban_reason = None\<rparr>),
            (4, \<lparr>first_name = [], username = [], joined_at = 3, last_seen = 3, is_banned = 1, ban_reason = Some ''spam''\<rparr>),
            (1, \<lparr>first_name = ''Op'', username = [], joined_at = 10, last_seen = 11, is_banned = 0, ban_reason = None\<rparr>)]
     = [1, 2, 3]
   \<and> fst (broadcast_cmd
        \<lparr>send_returns = (\<lambda>i uid msg. True), reply_returns = (\<lambda>n. False), edit_due = (\<lambda>i. False)\<rparr>
        1 10 11 12 13
        \<lparr>effective_user = Some \<lparr>tg_id = 1, tg_first_name = ''Op'', tg_username = None\<rparr>,
         effective_message = Some \<lparr>message_id = 3\<rparr>\<rparr>
        [''hi'', ''all'']
        \<lparr>users =
           [(2, \<lparr>first_name = ''Bo'', username = [], joined_at = 1, last_seen = 1, is_banned = 0, ban_reason = None\<rparr>),
            (3, \<lparr>first_name = ''Cy'', username = [], joined_at = 2, last_seen = 2, is_banned = 0, ban_reason = None\<rparr>),
            (4, \<lparr>first_name = [], username = [], joined_at = 3, last_seen = 3, is_banned = 1, ban_reason = Some ''spam''\<rparr>)],
         broadcasts = [],
         FLOOD = \<lparr>window = 8, limit = 7, bucket = Map.empty\<rparr>, outbox = []\<rparr>) = Raised TelegramError
   \<and> broadcasts (snd (broadcast_cmd
        \<lparr>send_returns = (\<lambda>i uid msg. True), reply_returns = (\<lambda>n. False), edit_due = (\<lambda>i. False)\<rparr>
        1 10 11 12 13
        \<lparr>effective_user = Some \<lparr>tg_id = 1, tg_first_name = ''Op'', tg_username = None\<rparr>,
         effective_message = Some \<lparr>message_id = 3\<rparr>\<rparr>
        [''hi'', ''all'']
        \<lparr>users =
           [(2, \<lparr>first_name = ''Bo'', username = [], joined_at = 1, last_seen = 1, is_banned = 0, ban_reason = None\<rparr>),
            (3, \<lparr>first_name = ''Cy'', username = [], joined_at = 2, last_seen = 2, is_banned = 0, ban_reason = None\<rparr>),
            (4, \<lparr>first_name = [], username = [], joined_at = 3, last_seen = 3, is_banned = 1, ban_reason = Some ''spam''\<rparr>)],
         broadcasts = [],
         FLOOD = \<lparr>window = 8, limit = 7, bucket = Map.empty\<rparr>, outbox = []\<rparr>))
     = [(1, \<lparr>admin_id = 1, message = ''hi all'', created_at = 13, sent_ok = 0, sent_fail = 0\<rparr>)]
   \<and> deliveries (outbox (snd (broadcast_cmd
        \<lparr>send_returns = (\<lambda>i uid msg. True), reply_returns = (\<lambda>n. False), edit_due = (\<lambda>i. False)\<rparr>
        1 10 11 12 13
        \<lparr>effective_user = Some \<lparr>tg_id = 1, tg_first_name = ''Op'', tg_username = None\<rparr>,
         effective_message = Some \<lparr>message_id = 3\<rparr>\<rparr>
        [''hi'', ''all'']
        \<lparr>users =
           [(2, \<lparr>first_name = ''Bo'', username = [], joined_at = 1, last_seen = 1, is_banned = 0, ban_reason = None\<rparr>),
            (3, \<lparr>first_name = ''Cy'', username = [], joined_at = 2, last_seen = 2, is_banned = 0, ban_reason = None\<rparr>),
            (4, \<lparr>first_name = [], username = [], joined_at = 3, last_seen = 3, is_banned = 1, ban_reason = Some ''spam''\<rparr>)],
         broadcasts = [],
         FLOOD = \<lparr>window = 8, limit = 7, bucket = Map.empty\<rparr>, outbox = []\<rparr>))) = []
   \<and> broadcast_commits (outbox (snd (broadcast_cmd
        \<lparr>send_returns = (\<lambda>i uid msg. True), reply_returns = (\<lambda>n. False), edit_due = (\<lambda>i. False)\<rparr>
        1 10 11 12 13
        \<lparr>effective_user = Some \<lparr>tg_id = 1, tg_first_name = ''Op'', tg_username = None\<rparr>,
         effective_message = Some \<lparr>message_id = 3\<rparr>\<rparr>
        [''hi'', ''all'']
        \<lparr>users =
           [(2, \<lparr>first_name = ''Bo'', username = [], joined_at = 1, last_seen = 1, is_banned = 0, ban_reason = None\<rparr>),
            (3, \<lparr>first_name = ''Cy'', username = [], joined_at = 2, last_seen = 2, is_banned = 0, ban_reason = None\<rparr>),
            (4, \<lparr>first_name = [], username = [], joined_at = 3, last_seen = 3, is_banned = 1, ban_reason = Some ''spam''\<rparr>)],
         broadcasts = [],
         FLOOD = \<lparr>window = 8, limit = 7, bucket = Map.empty\<rparr>, outbox = []\<rparr>)))
     = [[(1, \<lparr>admin_id = 1, message = ''hi all'', created_at = 13, sent_ok = 0, sent_fail = 0\<rparr>)]]"
proof -
  let ?e2 = "\<lparr>send_returns = (\<lambda>i (uid::int) msg. True), reply_returns = (\<lambda>n. False),
             edit_due = (\<lambda>i. False)\<rparr>"
  let ?upd = "\<lparr>effective_user = Some \<lparr>tg_id = 1, tg_first_name = ''Op'', tg_username = None\<rparr>,
         effective_message = Some \<lparr>message_id = 3\<rparr>\<rparr>"
  let ?old =
    "[(2, \<lparr>first_name = ''Bo'', username = [], joined_at = 1, last_seen = 1, is_banned = 0, ban_reason = None\<rparr>),
            (3, \<lparr>first_name = ''Cy'', username = [], joined_at = 2, last_seen = 2, is_banned = 0, ban_reason = None\<rparr>),
            (4, \<lparr>first_name = [], username = [], joined_at = 3, last_seen = 3, is_banned = 1, ban_reason = Some ''spam''\<rparr>)]"
  let ?mid =
    "[(2, \<lparr>first_name = ''Bo'', username = [], joined_at = 1, last_seen = 1, is_banned = 0, ban_reason = None\<rparr>),
            (3, \<lparr>first_name = ''Cy'', username = [], joined_at = 2, last_seen = 2, is_banned = 0, ban_reason = None\<rparr>),
            (4, \<lparr>first_name = [], username = [], joined_at = 3, last_seen = 3, is_banned = 1, ban_reason = Some ''spam''\<rparr>),
            (1, \<lparr>first_name = ''Op'', username = [], joined_at = 10, last_seen = 10, is_banned = 0, ban_reason = None\<rparr>)]"
  let ?new =
    "[(2, \<lparr>first_name = ''Bo'', username = [], joined_at = 1, last_seen = 1, is_banned = 0, ban_reason = None\<rparr>),
            (3, \<lparr>first_name = ''Cy'', username = [], joined_at = 2, last_seen = 2, is_banned = 0, ban_reason = None\<rparr>),
            (4, \<lparr>first_name = [], username = [], joined_at = 3, last_seen = 3, is_banned = 1, ban_reason = Some ''spam''\<rparr>),
            (1, \<lparr>first_name = ''Op'', username = [], joined_at = 10, last_seen = 11, is_banned = 0, ban_reason = None\<rparr>)]"
  let ?f = "\<lparr>window = 8, limit = 7, bucket = Map.empty\<rparr>"
  let ?w = "\<lparr>users = ?old, broadcasts = [], FLOOD = ?f, outbox = []\<rparr>"
  let ?w1 = "\<lparr>users = ?new, broadcasts = [], FLOOD = ?f,
              outbox = [Commit_Users ?mid, Commit_Users ?new]\<rparr>"
  have r: "sqlite_int 1"
    by (simp add: sqlite_int_def)
  have g: "guard 1 10 11 12 ?upd ?w = (Inr True, ?w1)"
    using r
    by (simp add: guard_def DB_is_banned_def upsert_user_def set_last_seen_def insert_or_update_def
        update_where_def or_empty_def is_admin_def commit_users_def)
  have adm: "is_admin 1 ?upd"
    by (simp add: is_admin_def)
  have msg: "''hi all'' = strip (str_join '' '' [''hi'', ''all''])"
    by (simp add: strip_def py_isspace_def)
  have ids: "[1, 2, 3] = user_ids_active (users ?w1)"
    by (simp add: user_ids_active_def)
  have bid: "1 = lastrowid (broadcasts ?w1)"
    by (simp add: lastrowid_def)
  have run: "broadcast_cmd ?e2 1 10 11 12 13 ?upd [''hi'', ''all''] ?w
      = (Raised TelegramError,
         ?w1\<lparr>broadcasts := [(1, \<lparr>admin_id = 1, message = ''hi all'', created_at = 13, sent_ok = 0, sent_fail = 0\<rparr>)],
             outbox := outbox ?w1 @ [Commit_Broadcasts [(1, \<lparr>admin_id = 1, message = ''hi all'', created_at = 13, sent_ok = 0, sent_fail = 0\<rparr>)],
               Reply_Text (Broadcast_Started 3 1)]\<rparr>)"
    using r ids [symmetric] msg [symmetric] bid [symmetric]
    by (simp add: broadcast_cmd_def g adm broadcast_run_def log_broadcast_def reply_text_def
        commit_broadcasts_def Let_def)
  show ?thesis
    using ids [symmetric]
    by (simp add: run deliveries_def broadcast_commits_def)
qed

text \<open>C4: when the message is empty after \<^verbatim>\<open>strip\<close>, or when
  \<^verbatim>\<open>user_ids_active\<close> returns no id, the run of \<^verbatim>\<open>broadcast_cmd\<close> after
  the guard writes to no table and makes no delivery: it only replies. For the
  whole handler, whose guard has written the caller's row in \<^verbatim>\<open>users\<close>
  before, the table \<^verbatim>\<open>broadcasts\<close> is unchanged, nothing is committed to it
  and no delivery is made.\<close>

theorem broadcast_rejected_without_record:
  "(strip (str_join '' '' args) = [] \<or> user_ids_active (users w) = [] \<longrightarrow>
      users (snd (broadcast_run e ts upd args w)) = users w
      \<and> broadcasts (snd (broadcast_run e ts upd args w)) = broadcasts w
      \<and> FLOOD (snd (broadcast_run e ts upd args w)) = FLOOD w
      \<and> deliveries (outbox (snd (broadcast_run e ts upd args w))) = deliveries (outbox w)
      \<and> broadcast_commits (outbox (snd (broadcast_run e ts upd args w)))
          = broadcast_commits (outbox w))
   \<and> (strip (str_join '' '' args) = []
        \<or> user_ids_active (users (snd (guard OWNER_ID t1 t2 t3 upd w))) = [] \<longrightarrow>
      broadcasts (snd (broadcast_cmd e OWNER_ID t1 t2 t3 t4 upd args w)) = broadcasts w
      \<and> deliveries (outbox (snd (broadcast_cmd e OWNER_ID t1 t2 t3 t4 upd args w)))
          = deliveries (outbox w)
      \<and> broadcast_commits (outbox (snd (broadcast_cmd e OWNER_ID t1 t2 t3 t4 upd args w)))
          = broadcast_commits (outbox w))"
proof (intro conjI impI)
  assume h: "strip (str_join '' '' args) = [] \<or> user_ids_active (users w) = []"
  note r = broadcast_run_rejects [OF h, of e ts upd]
  show "users (snd (broadcast_run e ts upd args w)) = users w"
    and "broadcasts (snd (broadcast_run e ts upd args w)) = broadcasts w"
    and "FLOOD (snd (broadcast_run e ts upd args w)) = FLOOD w"
    and "deliveries (outbox (snd (broadcast_run e ts upd args w))) = deliveries (outbox w)"
    and "broadcast_commits (outbox (snd (broadcast_run e ts upd args w)))
          = broadcast_commits (outbox w)"
    by (simp_all add: r deliveries_append deliveries_simps broadcast_commits_append
        broadcast_commits_simps)
next
  let ?g = "guard OWNER_ID t1 t2 t3 upd w"
  assume h: "strip (str_join '' '' args) = [] \<or> user_ids_active (users (snd ?g)) = []"
  note r = broadcast_run_rejects [OF h, of e t4 upd]
  note k = guard_keeps_broadcasts [of OWNER_ID t1 t2 t3 upd w]
  obtain res w1 where g: "?g = (res, w1)"
    by (cases ?g)
  have cmd: "snd (broadcast_cmd e OWNER_ID t1 t2 t3 t4 upd args w) =
      (case res of Inl err \<Rightarrow> w1
       | Inr pass \<Rightarrow> if \<not> pass then w1
           else if \<not> is_admin OWNER_ID upd then snd (reply_text e Admin_Only upd w1)
           else snd (broadcast_run e t4 upd args w1))"
    by (simp add: broadcast_cmd_def g split: sum.splits)
  have rt: "broadcasts (snd (reply_text e Admin_Only upd w1)) = broadcasts w1"
    "deliveries (outbox (snd (reply_text e Admin_Only upd w1))) = deliveries (outbox w1)"
    "broadcast_commits (outbox (snd (reply_text e Admin_Only upd w1))) = broadcast_commits (outbox w1)"
    by (simp_all add: reply_text_def deliveries_append deliveries_simps broadcast_commits_append
        broadcast_commits_simps split: option.splits)
  have rn: "broadcasts (snd (broadcast_run e t4 upd args w1)) = broadcasts w1"
    "deliveries (outbox (snd (broadcast_run e t4 upd args w1))) = deliveries (outbox w1)"
    "broadcast_commits (outbox (snd (broadcast_run e t4 upd args w1))) = broadcast_commits (outbox w1)"
    using r
    by (simp_all add: g deliveries_append deliveries_simps broadcast_commits_append
        broadcast_commits_simps)
  show "broadcasts (snd (broadcast_cmd e OWNER_ID t1 t2 t3 t4 upd args w)) = broadcasts w"
    and "deliveries (outbox (snd (broadcast_cmd e OWNER_ID t1 t2 t3 t4 upd args w)))
          = deliveries (outbox w)"
    and "broadcast_commits (outbox (snd (broadcast_cmd e OWNER_ID t1 t2 t3 t4 upd args w)))
          = broadcast_commits (outbox w)"
    using k by (simp_all add: cmd g rt rn split: sum.splits)
qed

theorem broadcast_rejected_without_record_witness:
  "strip (str_join '' '' ['' '', [CHR 0x09]]) = []
   \<and> broadcasts (snd (broadcast_run
        \<lparr>send_returns = (\<lambda>i uid msg. True), reply_returns = (\<lambda>n. True), edit_due = (\<lambda>i. False)\<rparr>
        13 \<lparr>effective_user = Some \<lparr>tg_id = 1, tg_first_name = ''Op'', tg_username = None\<rparr>,
         effective_message = Some \<lparr>message_id = 3\<rparr>\<rparr>
        ['' '', [CHR 0x09]]
        \<lparr>users = [(4, \<lparr>first_name = [], username = [], joined_at = 5, last_seen = 5, is_banned = 1,
                       ban_reason = Some ''spam''\<rparr>)],
         broadcasts = [],
         FLOOD = \<lparr>window = 8, limit = 7, bucket = Map.empty\<rparr>, outbox = []\<rparr>)) = []
   \<and> deliveries (outbox (snd (broadcast_run
        \<lparr>send_returns = (\<lambda>i uid msg. True), reply_returns = (\<lambda>n. True), edit_due = (\<lambda>i. False)\<rparr>
        13 \<lparr>effective_user = Some \<lparr>tg_id = 1, tg_first_name = ''Op'', tg_username = None\<rparr>,
         effective_message = Some \<lparr>message_id = 3\<rparr>\<rparr>
        ['' '', [CHR 0x09]]
        \<lparr>users = [(4, \<lparr>first_name = [], username = [], joined_at = 5, last_seen = 5, is_banned = 1,
                       ban_reason = Some ''spam''\<rparr>)],
         broadcasts = [],
         FLOOD = \<lparr>window = 8, limit = 7, bucket = Map.empty\<rparr>, outbox = []\<rparr>))) = []
   \<and> user_ids_active
        [(4, \<lparr>first_name = [], username = [], joined_at = 5, last_seen = 5, is_banned = 1,
                       ban_reason = Some ''spam''\<rparr>)] = []
   \<and> broadcasts (snd (broadcast_run
        \<lparr>send_returns = (\<lambda>i uid msg. True), reply_returns = (\<lambda>n. True), edit_due = (\<lambda>i. False)\<rparr>
        13 \<lparr>effective_user = Some \<lparr>tg_id = 1, tg_first_name = ''Op'', tg_username = None\<rparr>,
         effective_message = Some \<lparr>message_id = 3\<rparr>\<rparr>
        [''hi'']
        \<lparr>users = [(4, \<lparr>first_name = [], username = [], joined_at = 5, last_seen = 5, is_banned = 1,
                       ban_reason = Some ''spam''\<rparr>)],
         broadcasts = [],
         FLOOD = \<lparr>window = 8, limit = 7, bucket = Map.empty\<rparr>, outbox = []\<rparr>)) = []
   \<and> strip (str_join '' '' []) = []
   \<and> broadcasts (snd (broadcast_cmd
        \<lparr>send_returns = (\<lambda>i uid msg. True), reply_returns = (\<lambda>n. True), edit_due = (\<lambda>i. False)\<rparr>
        1 10 11 12 13
        \<lparr>effective_user = Some \<lparr>tg_id = 1, tg_first_name = ''Op'', tg_username = None\<rparr>,
         effective_message = Some \<lparr>message_id = 3\<rparr>\<rparr>
        []
        \<lparr>users = [(4, \<lparr>first_name = [], username = [], joined_at = 5, last_seen = 5, is_banned = 1,
                       ban_reason = Some ''spam''\<rparr>)],
         broadcasts = [],
         FLOOD = \<lparr>window = 8, limit = 7, bucket = Map.empty\<rparr>, outbox = []\<rparr>)) = []"
proof -
  let ?e = "\<lparr>send_returns = (\<lambda>i uid msg. True), reply_returns = (\<lambda>n. True), edit_due = (\<lambda>i. False)\<rparr>"
  let ?upd = "\<lparr>effective_user = Some \<lparr>tg_id = 1, tg_first_name = ''Op'', tg_username = None\<rparr>,
         effective_message = Some \<lparr>message_id = 3\<rparr>\<rparr>"
  let ?w = "\<lparr>users = [(4, \<lparr>first_name = [], username = [], joined_at = 5, last_seen = 5, is_banned = 1,
                       ban_reason = Some ''spam''\<rparr>)],
         broadcasts = [],
         FLOOD = \<lparr>window = 8, limit = 7, bucket = Map.empty\<rparr>, outbox = []\<rparr>"
  have blank: "strip (str_join '' '' ['' '', [CHR 0x09]]) = []"
    by (simp add: strip_def py_isspace_def)
  have none: "user_ids_active (users ?w) = []"
    by (simp add: user_ids_active_def)
  have e: "strip (str_join '' '' []) = []"
    by (simp add: strip_def)
  note a = broadcast_rejected_without_record [where args = "['' '', [CHR 0x09]]" and w = ?w and e = ?e
      and ts = 13 and ?t1.0 = 10 and ?t2.0 = 11 and ?t3.0 = 12 and ?t4.0 = 13 and OWNER_ID = 1
      and upd = ?upd, THEN conjunct1, rule_format, OF disjI1, OF blank]
  note b = broadcast_rejected_without_record [where args = "[''hi'']" and w = ?w and e = ?e
      and ts = 13 and ?t1.0 = 10 and ?t2.0 = 11 and ?t3.0 = 12 and ?t4.0 = 13 and OWNER_ID = 1
      and upd = ?upd, THEN conjunct1, rule_format, OF disjI2, OF none]
  note c = broadcast_rejected_without_record [where args = "[]" and w = ?w and e = ?e
      and ts = 13 and ?t1.0 = 10 and ?t2.0 = 11 and ?t3.0 = 12 and ?t4.0 = 13 and OWNER_ID = 1
      and upd = ?upd, THEN conjunct2, rule_format, OF disjI1, OF e]
  show ?thesis
    using a b c blank none e by (simp add: deliveries_def)
qed

end
